theory Spec2Isabelle
  imports Complex_Main "HOL-Library.AList"
begin

section \<open>Credit valuation: input models and the calculation pipeline\<close>

text \<open>
  The development follows \<^verbatim>\<open>src/credit_valuation/models.py\<close> and
  \<^verbatim>\<open>src/credit_valuation/engine.py\<close>. Python integers are \<^typ>\<open>int\<close>. A Python
  float is the real number it denotes; the infinities and NaN have no model. A pandas
  column holds reals; the integer columns (\<^verbatim>\<open>period\<close>, \<^verbatim>\<open>num_accounts\<close>) hold
  integer-valued reals.
\<close>

subsection \<open>Floating-point arithmetic\<close>

text \<open>
  Every arithmetic operation of the source computes the exact result and rounds it to a
  double. The functions below take the arithmetic as a parameter: how a real is rounded,
  the power function of the C library behind \<^verbatim>\<open>**\<close>, and the sum of a column
  (\<^verbatim>\<open>Series.sum\<close>). Nothing is assumed of them where a statement holds for every
  arithmetic.
\<close>

record arith =
  rnd :: "real \<Rightarrow> real"
  fpow :: "real \<Rightarrow> real \<Rightarrow> real"
  fsum :: "real list \<Rightarrow> real"

text \<open>Exact arithmetic: no rounding. The claims that say so are stated for it.\<close>

definition exact :: arith where
  "exact = \<lparr>rnd = (\<lambda>x. x), fpow = (powr), fsum = sum_list\<rparr>"

text \<open>
  IEEE 754 binary64 with round-to-nearest, ties to even, which is Python's float
  arithmetic: a value with binary exponent \<open>k\<close> is rounded to a multiple of \<open>2\<close> to the
  \<open>k - 52\<close>, and below the smallest normal number to a multiple of \<open>2\<close> to the \<open>- 1074\<close>.
  A result beyond the largest double is an infinity in Python and stays finite here.
\<close>

definition round_half_even :: "real \<Rightarrow> int" where
  "round_half_even x =
     (let f = \<lfloor>x\<rfloor>
      in if x - of_int f < 1 / 2 then f
         else if 1 / 2 < x - of_int f then f + 1
         else if even f then f else f + 1)"

definition binary64 :: "real \<Rightarrow> real" where
  "binary64 x =
     (if x = 0 then 0
      else let e = max (\<lfloor>log 2 \<bar>x\<bar>\<rfloor> - 52) (- 1074)
           in of_int (round_half_even (x / 2 powr of_int e)) * 2 powr of_int e)"

text \<open>
  Double arithmetic. The four operations are correctly rounded, as IEEE 754 requires. The
  power is taken as correctly rounded too, which a C library's \<^verbatim>\<open>pow\<close> is where the
  exact power is a double (so \<^verbatim>\<open>pow(1.0, y)\<close> is \<^verbatim>\<open>1.0\<close>), and the sum as the
  left-to-right sum, which is numpy's for fewer than eight values; statements about
  doubles below use them only there.
\<close>

definition double :: arith where
  "double = \<lparr>rnd = binary64, fpow = (\<lambda>x y. binary64 (x powr y)),
              fsum = foldl (\<lambda>a x. binary64 (a + x)) 0\<rparr>"

subsection \<open>Errors\<close>

text \<open>
  An f-string is kept as its segments: the literal text and the interpolated values. The
  rendered message is the concatenation of the segments, each value printed by Python.
\<close>

datatype fpart = Lit string | FloatArg real | IntsArg "int list"

text \<open>
  A pydantic \<^verbatim>\<open>ValidationError\<close> carries one detail per failure: a field that breaks
  its \<^verbatim>\<open>Field(...)\<close> constraint (named), or the \<^verbatim>\<open>ValueError\<close> a model validator
  raised (with its message).
\<close>

datatype detail = Constraint string | ValueError "fpart list"

text \<open>
  The errors of the engine are Python's. \<open>DanglingReference\<close> is the model's own: a
  reference that names no object of the store, which no Python program can hold.
\<close>

datatype error =
    ValidationError "detail list"
  | KeyError string
  | IndexError
  | ZeroDivisionError
  | DanglingReference

subsection \<open>models.py\<close>

record PeriodData =
  period :: int
  prob_charge_off :: real
  prob_attrition :: real
  revolving_balance :: real
  purchase_amount :: real
  finance_charge_rate :: real
  other_fees :: real

record GlobalParameters =
  flat_interchange_rate :: real
  discount_rate :: real
  num_accounts :: int

record CohortInput =
  periods :: "PeriodData list"
  parameters :: GlobalParameters

record ValuationSummary =
  total_pv :: real
  pv_per_account :: real
  total_revenue :: real
  total_cost :: real
  total_net_income :: real
  final_survival_rate :: real
  num_periods :: nat
  summary_num_accounts :: int

text \<open>\<^verbatim>\<open>Field(ge=..., le=...)\<close>: the names of the fields outside their bounds, in field order.\<close>

definition violation :: "string \<Rightarrow> bool \<Rightarrow> string list" where
  "violation name ok = (if ok then [] else [name])"

definition PeriodData_field_errors :: "PeriodData \<Rightarrow> string list" where
  "PeriodData_field_errors p =
     violation ''period'' (1 \<le> period p \<and> period p \<le> 60) @
     violation ''prob_charge_off'' (0 \<le> prob_charge_off p \<and> prob_charge_off p \<le> 1) @
     violation ''prob_attrition'' (0 \<le> prob_attrition p \<and> prob_attrition p \<le> 1) @
     violation ''revolving_balance'' (0 \<le> revolving_balance p) @
     violation ''purchase_amount'' (0 \<le> purchase_amount p) @
     violation ''finance_charge_rate'' (0 \<le> finance_charge_rate p \<and> finance_charge_rate p \<le> 1) @
     violation ''other_fees'' (0 \<le> other_fees p)"

text \<open>
  \<^verbatim>\<open>PeriodData._competing_risks_valid\<close>, the model validator run after the fields. The
  sum it compares with 1.0 is the rounded one.
\<close>

definition competing_risks_valid :: "arith \<Rightarrow> PeriodData \<Rightarrow> error + PeriodData" where
  "competing_risks_valid ar self =
     (if rnd ar (prob_charge_off self + prob_attrition self) > 1
      then Inl (ValidationError [ValueError
             [Lit ''prob_charge_off ('', FloatArg (prob_charge_off self), Lit '') + '',
              Lit ''prob_attrition ('', FloatArg (prob_attrition self), Lit '') exceeds 1.0'']])
      else Inr self)"

text \<open>
  Constructing a \<^verbatim>\<open>PeriodData\<close> from its seven field values: the field constraints
  first; the model validator (\<^verbatim>\<open>mode="after"\<close>) only when all of them hold.
\<close>

definition PeriodData_new ::
  "arith \<Rightarrow> int \<Rightarrow> real \<Rightarrow> real \<Rightarrow> real \<Rightarrow> real \<Rightarrow> real \<Rightarrow> real \<Rightarrow> error + PeriodData" where
  "PeriodData_new ar per pco pat rb pa fcr fees =
     (let self = \<lparr>period = per, prob_charge_off = pco, prob_attrition = pat,
                   revolving_balance = rb, purchase_amount = pa,
                   finance_charge_rate = fcr, other_fees = fees\<rparr>
      in if PeriodData_field_errors self \<noteq> []
         then Inl (ValidationError (map Constraint (PeriodData_field_errors self)))
         else competing_risks_valid ar self)"

definition GlobalParameters_field_errors :: "GlobalParameters \<Rightarrow> string list" where
  "GlobalParameters_field_errors g =
     violation ''flat_interchange_rate'' (0 \<le> flat_interchange_rate g \<and> flat_interchange_rate g \<le> 1) @
     violation ''discount_rate'' (0 \<le> discount_rate g) @
     violation ''num_accounts'' (0 < num_accounts g)"

definition GlobalParameters_new :: "real \<Rightarrow> real \<Rightarrow> int \<Rightarrow> error + GlobalParameters" where
  "GlobalParameters_new fir dr n =
     (let self = \<lparr>flat_interchange_rate = fir, discount_rate = dr, num_accounts = n\<rparr>
      in if GlobalParameters_field_errors self \<noteq> []
         then Inl (ValidationError (map Constraint (GlobalParameters_field_errors self)))
         else Inr self)"

text \<open>\<^verbatim>\<open>CohortInput._periods_sequential\<close>; \<^verbatim>\<open>list(range(1, n + 1))\<close> is \<open>[1..n]\<close>.\<close>

definition periods_sequential :: "CohortInput \<Rightarrow> error + CohortInput" where
  "periods_sequential self =
     (let expected = [1..int (length (periods self))];
          actual = map period (periods self)
      in if actual \<noteq> expected
         then Inl (ValidationError [ValueError
                [Lit ''Periods must be sequential starting at 1. Got: '',
                 IntsArg (take 5 actual), Lit ''...'']])
         else Inr self)"

text \<open>
  Constructing a \<^verbatim>\<open>CohortInput\<close> from period and parameter objects that were already
  constructed (pydantic does not validate an instance of the field's class again).
\<close>

definition CohortInput_new :: "PeriodData list \<Rightarrow> GlobalParameters \<Rightarrow> error + CohortInput" where
  "CohortInput_new ps g = periods_sequential \<lparr>periods = ps, parameters = g\<rparr>"

text \<open>
  A cohort that passes validation: every period and the parameters are values their
  constructors return, and so is the cohort. Only the competing-risk check computes, so
  only the periods' validity depends on the arithmetic.
\<close>

definition valid_period :: "arith \<Rightarrow> PeriodData \<Rightarrow> bool" where
  "valid_period ar p \<longleftrightarrow>
     PeriodData_new ar (period p) (prob_charge_off p) (prob_attrition p) (revolving_balance p)
       (purchase_amount p) (finance_charge_rate p) (other_fees p) = Inr p"

definition valid_parameters :: "GlobalParameters \<Rightarrow> bool" where
  "valid_parameters g \<longleftrightarrow>
     GlobalParameters_new (flat_interchange_rate g) (discount_rate g) (num_accounts g) = Inr g"

definition valid_cohort :: "arith \<Rightarrow> CohortInput \<Rightarrow> bool" where
  "valid_cohort ar c \<longleftrightarrow>
     list_all (valid_period ar) (periods c) \<and> valid_parameters (parameters c) \<and>
     CohortInput_new (periods c) (parameters c) = Inr c"

subsection \<open>The pandas operations the engine uses\<close>

text \<open>
  A Series is the list of its values in row order. A DataFrame has a row count (its
  RangeIndex) and its columns in order; assigning to a column replaces it in place when
  it exists and appends it otherwise, which is what \<^const>\<open>AList.update\<close> does.
  DataFrames are mutable objects: the store is the list of all DataFrames allocated so
  far, and a reference is a position in it.
\<close>

type_synonym Series = "real list"

record DataFrame =
  index_size :: nat
  columns :: "(string \<times> Series) list"

type_synonym ref = nat
type_synonym store = "DataFrame list"
type_synonym 'a py = "store \<Rightarrow> error + ('a \<times> store)"

definition ret :: "'a \<Rightarrow> 'a py" where
  "ret x h = Inr (x, h)"

definition raise :: "error \<Rightarrow> 'a py" where
  "raise e h = Inl e"

definition pbind :: "'a py \<Rightarrow> ('a \<Rightarrow> 'b py) \<Rightarrow> 'b py" where
  "pbind m f h = (case m h of Inl e \<Rightarrow> Inl e | Inr (x, h') \<Rightarrow> f x h')"

definition alloc :: "DataFrame \<Rightarrow> ref py" where
  "alloc df h = Inr (length h, h @ [df])"

definition deref :: "ref \<Rightarrow> DataFrame py" where
  "deref r h = (if r < length h then Inr (h ! r, h) else Inl DanglingReference)"

text \<open>\<^verbatim>\<open>df.copy()\<close>: a new object with the same rows and columns (a deep copy).\<close>

definition copy :: "ref \<Rightarrow> ref py" where
  "copy r = pbind (deref r) alloc"

text \<open>\<^verbatim>\<open>df[name]\<close>: the column, or KeyError when the frame has no such column.\<close>

definition getitem :: "ref \<Rightarrow> string \<Rightarrow> Series py" where
  "getitem r name = pbind (deref r) (\<lambda>df.
     case map_of (columns df) name of
       None \<Rightarrow> raise (KeyError name)
     | Some s \<Rightarrow> ret s)"

text \<open>
  \<^verbatim>\<open>df[name] = series\<close>, mutating the object in place. Every Series the engine assigns
  was computed from columns of the same frame, so it has one value per row.
\<close>

definition setitem :: "ref \<Rightarrow> string \<Rightarrow> Series \<Rightarrow> unit py" where
  "setitem r name s h =
     (if r < length h
      then Inr ((), h[r := (h ! r)\<lparr>columns := AList.update name s (columns (h ! r))\<rparr>])
      else Inl DanglingReference)"

text \<open>\<^verbatim>\<open>df[name] = scalar\<close>: the scalar in every row.\<close>

definition setitem_scalar :: "ref \<Rightarrow> string \<Rightarrow> real \<Rightarrow> unit py" where
  "setitem_scalar r name x = pbind (deref r) (\<lambda>df.
     setitem r name (replicate (index_size df) x))"

text \<open>
  \<^verbatim>\<open>pd.DataFrame(rows)\<close> for a list of records (ordered dictionaries): one row per
  record, the columns the keys of the records. An empty list gives a frame with no rows
  and no columns. The records here are dumps of one model class, so all have the keys of
  the first.
\<close>

definition DataFrame_new :: "(string \<times> real) list list \<Rightarrow> ref py" where
  "DataFrame_new rows =
     alloc \<lparr>index_size = length rows,
            columns = (case rows of
                         [] \<Rightarrow> []
                       | r # _ \<Rightarrow> map (\<lambda>k. (k, map (\<lambda>row. the (map_of row k)) rows)) (map fst r))\<rparr>"

text \<open>
  Arithmetic on Series, elementwise, each result rounded; a scalar operand is broadcast.
\<close>

definition sadd :: "arith \<Rightarrow> Series \<Rightarrow> Series \<Rightarrow> Series" where
  "sadd ar xs ys = map2 (\<lambda>x y. rnd ar (x + y)) xs ys"

definition ssub :: "arith \<Rightarrow> Series \<Rightarrow> Series \<Rightarrow> Series" where
  "ssub ar xs ys = map2 (\<lambda>x y. rnd ar (x - y)) xs ys"

definition smul :: "arith \<Rightarrow> Series \<Rightarrow> Series \<Rightarrow> Series" where
  "smul ar xs ys = map2 (\<lambda>x y. rnd ar (x * y)) xs ys"

text \<open>
  \<^verbatim>\<open>x ** y\<close>, the power function of the arithmetic; exactly, with a positive base, it is
  \<^const>\<open>powr\<close>, and the engine's base is \<open>1 + discount_rate\<close>, at least 1 for validated
  parameters.
\<close>

definition spow :: "arith \<Rightarrow> Series \<Rightarrow> Series \<Rightarrow> Series" where
  "spow ar xs ys = map2 (fpow ar) xs ys"

definition scalar_add :: "arith \<Rightarrow> real \<Rightarrow> Series \<Rightarrow> Series" where
  "scalar_add ar c xs = map (\<lambda>x. rnd ar (c + x)) xs"

definition scalar_sub :: "arith \<Rightarrow> real \<Rightarrow> Series \<Rightarrow> Series" where
  "scalar_sub ar c xs = map (\<lambda>x. rnd ar (c - x)) xs"

text \<open>
  \<^verbatim>\<open>c / series\<close>; pandas gives \<open>inf\<close> for a zero divisor where HOL gives 0, which the
  engine's divisor \<open>(1 + discount_rate) ** (period / 12)\<close>, positive, never is.
\<close>

definition scalar_div :: "arith \<Rightarrow> real \<Rightarrow> Series \<Rightarrow> Series" where
  "scalar_div ar c xs = map (\<lambda>x. rnd ar (c / x)) xs"

definition div_scalar :: "arith \<Rightarrow> Series \<Rightarrow> real \<Rightarrow> Series" where
  "div_scalar ar xs c = map (\<lambda>x. rnd ar (x / c)) xs"

text \<open>
  An integer column that meets a float operand is converted to floats first, each integer
  rounded to a double.
\<close>

definition astype_float :: "arith \<Rightarrow> Series \<Rightarrow> Series" where
  "astype_float ar xs = map (rnd ar) xs"

text \<open>
  \<^verbatim>\<open>cumprod\<close>, \<^verbatim>\<open>cumsum\<close>: the running product and sum, the current row included;
  the first row is the first value, every later one the rounded product or sum of the row
  before and the value.
\<close>

fun cumprod_from :: "arith \<Rightarrow> real \<Rightarrow> Series \<Rightarrow> Series" where
  "cumprod_from ar acc [] = []"
| "cumprod_from ar acc (x # xs) = rnd ar (acc * x) # cumprod_from ar (rnd ar (acc * x)) xs"

definition cumprod :: "arith \<Rightarrow> Series \<Rightarrow> Series" where
  "cumprod ar xs = (case xs of [] \<Rightarrow> [] | x # xs' \<Rightarrow> x # cumprod_from ar x xs')"

fun cumsum_from :: "arith \<Rightarrow> real \<Rightarrow> Series \<Rightarrow> Series" where
  "cumsum_from ar acc [] = []"
| "cumsum_from ar acc (x # xs) = rnd ar (acc + x) # cumsum_from ar (rnd ar (acc + x)) xs"

definition cumsum :: "arith \<Rightarrow> Series \<Rightarrow> Series" where
  "cumsum ar xs = (case xs of [] \<Rightarrow> [] | x # xs' \<Rightarrow> x # cumsum_from ar x xs')"

text \<open>\<^verbatim>\<open>shift(1, fill_value=v)\<close>: every value one row down, \<open>v\<close> in the first row.\<close>

definition shift1 :: "real \<Rightarrow> Series \<Rightarrow> Series" where
  "shift1 fill_value xs = take (length xs) (fill_value # xs)"

text \<open>\<^verbatim>\<open>series.iloc[-1]\<close>: the last value, IndexError on an empty Series.\<close>

definition iloc_last :: "Series \<Rightarrow> real py" where
  "iloc_last xs = (if xs = [] then raise IndexError else ret (last xs))"

text \<open>
  Python's \<^verbatim>\<open>float / int\<close>: ZeroDivisionError on a zero divisor; otherwise the integer
  is converted to a float and the quotient rounded.
\<close>

definition truediv :: "arith \<Rightarrow> real \<Rightarrow> int \<Rightarrow> real py" where
  "truediv ar x n =
     (if n = 0 then raise ZeroDivisionError
      else ret (rnd ar (x / rnd ar (real_of_int n))))"

subsection \<open>engine.py\<close>

text \<open>\<^verbatim>\<open>p.model_dump()\<close>: the fields of a period as a dictionary, in field order.\<close>

definition model_dump :: "PeriodData \<Rightarrow> (string \<times> real) list" where
  "model_dump p =
     [(''period'', real_of_int (period p)),
      (''prob_charge_off'', prob_charge_off p),
      (''prob_attrition'', prob_attrition p),
      (''revolving_balance'', revolving_balance p),
      (''purchase_amount'', purchase_amount p),
      (''finance_charge_rate'', finance_charge_rate p),
      (''other_fees'', other_fees p)]"

definition build_period_table :: "CohortInput \<Rightarrow> ref py" where
  "build_period_table cohort =
     pbind (DataFrame_new (map model_dump (periods cohort))) (\<lambda>df.
     pbind (setitem_scalar df ''flat_interchange_rate'' (flat_interchange_rate (parameters cohort))) (\<lambda>_.
     pbind (setitem_scalar df ''discount_rate'' (discount_rate (parameters cohort))) (\<lambda>_.
     pbind (setitem_scalar df ''num_accounts'' (real_of_int (num_accounts (parameters cohort)))) (\<lambda>_.
     ret df))))"

definition compute_survival :: "arith \<Rightarrow> ref \<Rightarrow> ref py" where
  "compute_survival ar df0 =
     pbind (copy df0) (\<lambda>df.
     pbind (getitem df ''prob_charge_off'') (\<lambda>pco.
     pbind (getitem df ''prob_attrition'') (\<lambda>pat.
     pbind (setitem df ''survival_factor'' (ssub ar (scalar_sub ar 1 pco) pat)) (\<lambda>_.
     pbind (getitem df ''survival_factor'') (\<lambda>sf.
     pbind (setitem df ''cumulative_survival'' (shift1 1 (cumprod ar sf))) (\<lambda>_.
     pbind (getitem df ''num_accounts'') (\<lambda>n.
     pbind (getitem df ''cumulative_survival'') (\<lambda>cs.
     pbind (setitem df ''active_accounts_bop'' (smul ar (astype_float ar n) cs)) (\<lambda>_.
     pbind (getitem df ''active_accounts_bop'') (\<lambda>bop.
     pbind (getitem df ''prob_charge_off'') (\<lambda>pco'.
     pbind (setitem df ''charge_off_accounts'' (smul ar bop pco')) (\<lambda>_.
     pbind (getitem df ''active_accounts_bop'') (\<lambda>bop'.
     pbind (getitem df ''prob_attrition'') (\<lambda>pat'.
     pbind (setitem df ''attrition_accounts'' (smul ar bop' pat')) (\<lambda>_.
     ret df)))))))))))))))"

definition compute_revenue :: "arith \<Rightarrow> ref \<Rightarrow> ref py" where
  "compute_revenue ar df0 =
     pbind (copy df0) (\<lambda>df.
     pbind (getitem df ''active_accounts_bop'') (\<lambda>bop.
     pbind (getitem df ''revolving_balance'') (\<lambda>rb.
     pbind (getitem df ''finance_charge_rate'') (\<lambda>fcr.
     pbind (setitem df ''finance_charge'' (smul ar (smul ar bop rb) fcr)) (\<lambda>_.
     pbind (getitem df ''active_accounts_bop'') (\<lambda>bop'.
     pbind (getitem df ''purchase_amount'') (\<lambda>pa.
     pbind (getitem df ''flat_interchange_rate'') (\<lambda>fir.
     pbind (setitem df ''interchange'' (smul ar (smul ar bop' pa) fir)) (\<lambda>_.
     pbind (getitem df ''active_accounts_bop'') (\<lambda>bop''.
     pbind (getitem df ''other_fees'') (\<lambda>fees.
     pbind (setitem df ''fee_income'' (smul ar bop'' fees)) (\<lambda>_.
     pbind (getitem df ''finance_charge'') (\<lambda>fc.
     pbind (getitem df ''interchange'') (\<lambda>ic.
     pbind (getitem df ''fee_income'') (\<lambda>fi.
     pbind (setitem df ''total_revenue'' (sadd ar (sadd ar fc ic) fi)) (\<lambda>_.
     ret df))))))))))))))))"

definition compute_costs :: "arith \<Rightarrow> ref \<Rightarrow> ref py" where
  "compute_costs ar df0 =
     pbind (copy df0) (\<lambda>df.
     pbind (getitem df ''active_accounts_bop'') (\<lambda>bop.
     pbind (getitem df ''prob_charge_off'') (\<lambda>pco.
     pbind (getitem df ''revolving_balance'') (\<lambda>rb.
     pbind (setitem df ''charge_off_loss'' (smul ar (smul ar bop pco) rb)) (\<lambda>_.
     pbind (getitem df ''charge_off_loss'') (\<lambda>col.
     pbind (setitem df ''total_cost'' col) (\<lambda>_.
     ret df)))))))"

definition compute_net_income_and_pv :: "arith \<Rightarrow> ref \<Rightarrow> ref py" where
  "compute_net_income_and_pv ar df0 =
     pbind (copy df0) (\<lambda>df.
     pbind (getitem df ''total_revenue'') (\<lambda>revenue.
     pbind (getitem df ''total_cost'') (\<lambda>cost.
     pbind (setitem df ''net_income'' (ssub ar revenue cost)) (\<lambda>_.
     pbind (getitem df ''discount_rate'') (\<lambda>annual_rate.
     pbind (getitem df ''period'') (\<lambda>per.
     pbind (setitem df ''discount_factor''
              (scalar_div ar 1 (spow ar (scalar_add ar 1 annual_rate) (div_scalar ar (astype_float ar per) 12)))) (\<lambda>_.
     pbind (getitem df ''net_income'') (\<lambda>ni.
     pbind (getitem df ''discount_factor'') (\<lambda>dfac.
     pbind (setitem df ''pv_net_income'' (smul ar ni dfac)) (\<lambda>_.
     pbind (getitem df ''pv_net_income'') (\<lambda>pv.
     pbind (setitem df ''cumulative_pv'' (cumsum ar pv)) (\<lambda>_.
     ret df))))))))))))"

definition compute_summary :: "arith \<Rightarrow> ref \<Rightarrow> int \<Rightarrow> ValuationSummary py" where
  "compute_summary ar df n =
     pbind (getitem df ''pv_net_income'') (\<lambda>pv.
     pbind (truediv ar (fsum ar pv) n) (\<lambda>per_account.
     pbind (getitem df ''total_revenue'') (\<lambda>revenue.
     pbind (getitem df ''total_cost'') (\<lambda>cost.
     pbind (getitem df ''net_income'') (\<lambda>ni.
     pbind (getitem df ''cumulative_survival'') (\<lambda>cs.
     pbind (iloc_last cs) (\<lambda>cs_last.
     pbind (getitem df ''survival_factor'') (\<lambda>sf.
     pbind (iloc_last sf) (\<lambda>sf_last.
     pbind (deref df) (\<lambda>table.
     ret \<lparr>total_pv = fsum ar pv,
          pv_per_account = per_account,
          total_revenue = fsum ar revenue,
          total_cost = fsum ar cost,
          total_net_income = fsum ar ni,
          final_survival_rate = rnd ar (cs_last * sf_last),
          num_periods = index_size table,
          summary_num_accounts = n\<rparr>))))))))))"

definition run_valuation :: "arith \<Rightarrow> CohortInput \<Rightarrow> (ref \<times> ValuationSummary) py" where
  "run_valuation ar cohort =
     pbind (build_period_table cohort) (\<lambda>df0.
     pbind (compute_survival ar df0) (\<lambda>df1.
     pbind (compute_revenue ar df1) (\<lambda>df2.
     pbind (compute_costs ar df2) (\<lambda>df3.
     pbind (compute_net_income_and_pv ar df3) (\<lambda>df4.
     pbind (compute_summary ar df4 (num_accounts (parameters cohort))) (\<lambda>summary.
     ret (df4, summary)))))))"


subsection \<open>The test fixtures\<close>

text \<open>
  \<^verbatim>\<open>tests/helpers.py\<close>, \<^verbatim>\<open>make_period(t)\<close> without overrides, and the fixtures of
  \<^verbatim>\<open>tests/conftest.py\<close>: the values the constructors are called with.
\<close>

definition make_period :: "int \<Rightarrow> PeriodData" where
  "make_period t =
     \<lparr>period = t, prob_charge_off = 2 / 100, prob_attrition = 3 / 100,
      revolving_balance = 5000, purchase_amount = 1000,
      finance_charge_rate = 15 / 1000, other_fees = 25\<rparr>"

definition default_params :: GlobalParameters where
  "default_params = \<lparr>flat_interchange_rate = 2 / 100, discount_rate = 10 / 100, num_accounts = 1000\<rparr>"

definition single_period_cohort :: CohortInput where
  "single_period_cohort = \<lparr>periods = [make_period 1], parameters = default_params\<rparr>"

definition two_period_cohort :: CohortInput where
  "two_period_cohort = \<lparr>periods = [make_period 1, make_period 2], parameters = default_params\<rparr>"


text \<open>The cohort of \<^verbatim>\<open>test_full_charge_off_period1\<close> in \<^verbatim>\<open>tests/test_engine.py\<close>.\<close>

definition full_charge_off_cohort :: CohortInput where
  "full_charge_off_cohort =
     \<lparr>periods = [(make_period 1)\<lparr>prob_charge_off := 1, prob_attrition := 0\<rparr>,
                 (make_period 2)\<lparr>prob_charge_off := 0, prob_attrition := 0\<rparr>],
      parameters = default_params\<rparr>"

text \<open>
  The same fixtures with the values the interpreter holds: a decimal literal such as
  \<^verbatim>\<open>0.02\<close> is the double nearest to it. \<open>make_period_double t p q\<close> is
  \<^verbatim>\<open>make_period(t, prob_charge_off=p, prob_attrition=q)\<close>, and the cohorts below are
  built from it: the single default period, one period in which every account leaves (\<^verbatim>\<open>0.9\<close> and \<^verbatim>\<open>0.1\<close>), the
  same period followed by two default ones, and two default periods discounted at the rate
  \<^verbatim>\<open>1e-17\<close>.
\<close>


definition make_period_double :: "int \<Rightarrow> real \<Rightarrow> real \<Rightarrow> PeriodData" where
  "make_period_double t p q =
     \<lparr>period = t, prob_charge_off = binary64 p, prob_attrition = binary64 q,
      revolving_balance = 5000, purchase_amount = 1000,
      finance_charge_rate = binary64 (3 / 200), other_fees = 25\<rparr>"

definition default_params_double :: GlobalParameters where
  "default_params_double =
     \<lparr>flat_interchange_rate = binary64 (1 / 50), discount_rate = binary64 (1 / 10),
      num_accounts = 1000\<rparr>"

definition single_period_cohort_double :: CohortInput where
  "single_period_cohort_double =
     \<lparr>periods = [make_period_double 1 (1 / 50) (3 / 100)], parameters = default_params_double\<rparr>"




section \<open>Running the pipeline\<close>

subsection \<open>Steps on the newest object of the store\<close>


lemma pbind_ret [simp]: "pbind (ret x) f = f x"
  by (rule ext) (simp add: pbind_def ret_def)

lemma copy_run: "r < length h \<Longrightarrow> copy r h = Inr (length h, h @ [h ! r])"
  by (simp add: copy_def pbind_def deref_def alloc_def)

lemma copy_dangling: "\<not> r < length h \<Longrightarrow> copy r h = Inl DanglingReference"
  by (simp add: copy_def pbind_def deref_def)

lemma getitem_top:
  "getitem (length h) name (h @ [df]) =
     (case map_of (columns df) name of None \<Rightarrow> Inl (KeyError name) | Some s \<Rightarrow> Inr (s, h @ [df]))"
  by (simp add: getitem_def pbind_def deref_def raise_def ret_def split: option.splits)

lemma setitem_top:
  "setitem (length h) name s (h @ [df]) =
     Inr ((), h @ [df\<lparr>columns := AList.update name s (columns df)\<rparr>])"
  by (simp add: setitem_def)

lemma setitem_scalar_top:
  "setitem_scalar (length h) name x (h @ [df]) =
     Inr ((), h @ [df\<lparr>columns := AList.update name (replicate (index_size df) x) (columns df)\<rparr>])"
  by (simp add: setitem_scalar_def pbind_def deref_def setitem_top)

lemmas run_simps = pbind_def copy_run copy_dangling getitem_top setitem_top setitem_scalar_top
  update_conv' ret_def

subsection \<open>Each stage as one equation\<close>

lemma compute_survival_eq:
  "compute_survival ar r h =
    (if r < length h then
      (case map_of (columns (h ! r)) ''prob_charge_off'' of
         None \<Rightarrow> Inl (KeyError ''prob_charge_off'')
       | Some pco \<Rightarrow>
      (case map_of (columns (h ! r)) ''prob_attrition'' of
         None \<Rightarrow> Inl (KeyError ''prob_attrition'')
       | Some pat \<Rightarrow>
      (case map_of (columns (h ! r)) ''num_accounts'' of
         None \<Rightarrow> Inl (KeyError ''num_accounts'')
       | Some n \<Rightarrow>
         Inr (length h, h @ [(h ! r)\<lparr>columns :=
           AList.update ''attrition_accounts''
             (smul ar (smul ar (astype_float ar n) (shift1 1 (cumprod ar (ssub ar (scalar_sub ar 1 pco) pat)))) pat)
          (AList.update ''charge_off_accounts''
             (smul ar (smul ar (astype_float ar n) (shift1 1 (cumprod ar (ssub ar (scalar_sub ar 1 pco) pat)))) pco)
          (AList.update ''active_accounts_bop''
             (smul ar (astype_float ar n) (shift1 1 (cumprod ar (ssub ar (scalar_sub ar 1 pco) pat))))
          (AList.update ''cumulative_survival''
             (shift1 1 (cumprod ar (ssub ar (scalar_sub ar 1 pco) pat)))
          (AList.update ''survival_factor'' (ssub ar (scalar_sub ar 1 pco) pat)
             (columns (h ! r))))))\<rparr>]))))
     else Inl DanglingReference)"
  by (simp add: compute_survival_def run_simps split: option.splits)

lemma compute_revenue_eq:
  "compute_revenue ar r h =
    (if r < length h then
      (case map_of (columns (h ! r)) ''active_accounts_bop'' of
         None \<Rightarrow> Inl (KeyError ''active_accounts_bop'')
       | Some bop \<Rightarrow>
      (case map_of (columns (h ! r)) ''revolving_balance'' of
         None \<Rightarrow> Inl (KeyError ''revolving_balance'')
       | Some rb \<Rightarrow>
      (case map_of (columns (h ! r)) ''finance_charge_rate'' of
         None \<Rightarrow> Inl (KeyError ''finance_charge_rate'')
       | Some fcr \<Rightarrow>
      (case map_of (columns (h ! r)) ''purchase_amount'' of
         None \<Rightarrow> Inl (KeyError ''purchase_amount'')
       | Some pa \<Rightarrow>
      (case map_of (columns (h ! r)) ''flat_interchange_rate'' of
         None \<Rightarrow> Inl (KeyError ''flat_interchange_rate'')
       | Some fir \<Rightarrow>
      (case map_of (columns (h ! r)) ''other_fees'' of
         None \<Rightarrow> Inl (KeyError ''other_fees'')
       | Some fees \<Rightarrow>
         Inr (length h, h @ [(h ! r)\<lparr>columns :=
           AList.update ''total_revenue''
             (sadd ar (sadd ar (smul ar (smul ar bop rb) fcr) (smul ar (smul ar bop pa) fir)) (smul ar bop fees))
          (AList.update ''fee_income'' (smul ar bop fees)
          (AList.update ''interchange'' (smul ar (smul ar bop pa) fir)
          (AList.update ''finance_charge'' (smul ar (smul ar bop rb) fcr)
             (columns (h ! r)))))\<rparr>])))))))
     else Inl DanglingReference)"
  by (simp add: compute_revenue_def run_simps split: option.splits)

lemma compute_costs_eq:
  "compute_costs ar r h =
    (if r < length h then
      (case map_of (columns (h ! r)) ''active_accounts_bop'' of
         None \<Rightarrow> Inl (KeyError ''active_accounts_bop'')
       | Some bop \<Rightarrow>
      (case map_of (columns (h ! r)) ''prob_charge_off'' of
         None \<Rightarrow> Inl (KeyError ''prob_charge_off'')
       | Some pco \<Rightarrow>
      (case map_of (columns (h ! r)) ''revolving_balance'' of
         None \<Rightarrow> Inl (KeyError ''revolving_balance'')
       | Some rb \<Rightarrow>
         Inr (length h, h @ [(h ! r)\<lparr>columns :=
           AList.update ''total_cost'' (smul ar (smul ar bop pco) rb)
          (AList.update ''charge_off_loss'' (smul ar (smul ar bop pco) rb)
             (columns (h ! r)))\<rparr>]))))
     else Inl DanglingReference)"
  by (simp add: compute_costs_def run_simps split: option.splits)

lemma compute_net_income_and_pv_eq:
  "compute_net_income_and_pv ar r h =
    (if r < length h then
      (case map_of (columns (h ! r)) ''total_revenue'' of
         None \<Rightarrow> Inl (KeyError ''total_revenue'')
       | Some revenue \<Rightarrow>
      (case map_of (columns (h ! r)) ''total_cost'' of
         None \<Rightarrow> Inl (KeyError ''total_cost'')
       | Some cost \<Rightarrow>
      (case map_of (columns (h ! r)) ''discount_rate'' of
         None \<Rightarrow> Inl (KeyError ''discount_rate'')
       | Some rate \<Rightarrow>
      (case map_of (columns (h ! r)) ''period'' of
         None \<Rightarrow> Inl (KeyError ''period'')
       | Some per \<Rightarrow>
         Inr (length h, h @ [(h ! r)\<lparr>columns :=
           AList.update ''cumulative_pv''
             (cumsum ar (smul ar (ssub ar revenue cost)
                (scalar_div ar 1 (spow ar (scalar_add ar 1 rate) (div_scalar ar (astype_float ar per) 12)))))
          (AList.update ''pv_net_income''
             (smul ar (ssub ar revenue cost)
                (scalar_div ar 1 (spow ar (scalar_add ar 1 rate) (div_scalar ar (astype_float ar per) 12))))
          (AList.update ''discount_factor''
             (scalar_div ar 1 (spow ar (scalar_add ar 1 rate) (div_scalar ar (astype_float ar per) 12)))
          (AList.update ''net_income'' (ssub ar revenue cost)
             (columns (h ! r)))))\<rparr>])))))
     else Inl DanglingReference)"
  by (simp add: compute_net_income_and_pv_def run_simps split: option.splits)


lemma compute_summary_eq:
  "compute_summary ar r n h =
    (if r < length h then
      (case map_of (columns (h ! r)) ''pv_net_income'' of
         None \<Rightarrow> Inl (KeyError ''pv_net_income'')
       | Some pv \<Rightarrow>
      if n = 0 then Inl ZeroDivisionError else
      (case map_of (columns (h ! r)) ''total_revenue'' of
         None \<Rightarrow> Inl (KeyError ''total_revenue'')
       | Some revenue \<Rightarrow>
      (case map_of (columns (h ! r)) ''total_cost'' of
         None \<Rightarrow> Inl (KeyError ''total_cost'')
       | Some cost \<Rightarrow>
      (case map_of (columns (h ! r)) ''net_income'' of
         None \<Rightarrow> Inl (KeyError ''net_income'')
       | Some ni \<Rightarrow>
      (case map_of (columns (h ! r)) ''cumulative_survival'' of
         None \<Rightarrow> Inl (KeyError ''cumulative_survival'')
       | Some cs \<Rightarrow>
      if cs = [] then Inl IndexError else
      (case map_of (columns (h ! r)) ''survival_factor'' of
         None \<Rightarrow> Inl (KeyError ''survival_factor'')
       | Some sf \<Rightarrow>
      if sf = [] then Inl IndexError else
         Inr (\<lparr>total_pv = fsum ar pv,
               pv_per_account = rnd ar (fsum ar pv / rnd ar (real_of_int n)),
               total_revenue = fsum ar revenue,
               total_cost = fsum ar cost,
               total_net_income = fsum ar ni,
               final_survival_rate = rnd ar (last cs * last sf),
               num_periods = index_size (h ! r),
               summary_num_accounts = n\<rparr>, h)))))))
     else Inl DanglingReference)"
  by (simp add: compute_summary_def getitem_def deref_def pbind_def ret_def raise_def
      truediv_def iloc_last_def split: option.splits)

lemma build_period_table_empty:
  "periods c = [] \<Longrightarrow>
   build_period_table c h =
     Inr (length h, h @ [\<lparr>index_size = 0,
       columns = [(''flat_interchange_rate'', []), (''discount_rate'', []), (''num_accounts'', [])]\<rparr>])"
  by (simp add: build_period_table_def DataFrame_new_def alloc_def pbind_def setitem_scalar_top ret_def)

lemma build_period_table_run:
  "periods c \<noteq> [] \<Longrightarrow>
   build_period_table c h =
     Inr (length h, h @ [\<lparr>index_size = length (periods c),
       columns =
         [(''period'', map (\<lambda>p. real_of_int (period p)) (periods c)),
          (''prob_charge_off'', map prob_charge_off (periods c)),
          (''prob_attrition'', map prob_attrition (periods c)),
          (''revolving_balance'', map revolving_balance (periods c)),
          (''purchase_amount'', map purchase_amount (periods c)),
          (''finance_charge_rate'', map finance_charge_rate (periods c)),
          (''other_fees'', map other_fees (periods c)),
          (''flat_interchange_rate'',
             replicate (length (periods c)) (flat_interchange_rate (parameters c))),
          (''discount_rate'', replicate (length (periods c)) (discount_rate (parameters c))),
          (''num_accounts'',
             replicate (length (periods c)) (real_of_int (num_accounts (parameters c))))]\<rparr>])"
  by (cases "periods c")
     (simp_all add: build_period_table_def DataFrame_new_def alloc_def pbind_def
        setitem_scalar_top ret_def model_dump_def comp_def)

lemma run_valuation_empty:
  "periods c = [] \<Longrightarrow> run_valuation ar c h = Inl (KeyError ''prob_charge_off'')"
  by (simp add: run_valuation_def pbind_def build_period_table_empty compute_survival_eq)



subsection \<open>Series\<close>

lemma exact_simps [simp]:
  "rnd exact = (\<lambda>x. x)" "fpow exact = (powr)" "fsum exact = sum_list"
  by (simp_all add: exact_def)

lemma astype_float_exact [simp]: "astype_float exact xs = xs"
  by (simp add: astype_float_def)

lemma length_cumprod_from [simp]: "length (cumprod_from ar a xs) = length xs"
  by (induction xs arbitrary: a) simp_all

lemma length_cumprod [simp]: "length (cumprod ar xs) = length xs"
  by (simp add: cumprod_def split: list.splits)

lemma length_cumsum_from [simp]: "length (cumsum_from ar a xs) = length xs"
  by (induction xs arbitrary: a) simp_all

lemma length_cumsum [simp]: "length (cumsum ar xs) = length xs"
  by (simp add: cumsum_def split: list.splits)

lemma length_shift1 [simp]: "length (shift1 v xs) = length xs"
  by (simp add: shift1_def)

lemma length_series_ops [simp]:
  "length (sadd ar xs ys) = min (length xs) (length ys)"
  "length (ssub ar xs ys) = min (length xs) (length ys)"
  "length (smul ar xs ys) = min (length xs) (length ys)"
  "length (spow ar xs ys) = min (length xs) (length ys)"
  "length (scalar_add ar a xs) = length xs"
  "length (scalar_sub ar a xs) = length xs"
  "length (scalar_div ar a xs) = length xs"
  "length (div_scalar ar xs a) = length xs"
  "length (astype_float ar xs) = length xs"
  by (simp_all add: sadd_def ssub_def smul_def spow_def scalar_add_def scalar_sub_def
      scalar_div_def div_scalar_def astype_float_def)

lemma nth_series_ops:
  "i < length xs \<Longrightarrow> i < length ys \<Longrightarrow> sadd exact xs ys ! i = xs ! i + ys ! i"
  "i < length xs \<Longrightarrow> i < length ys \<Longrightarrow> ssub exact xs ys ! i = xs ! i - ys ! i"
  "i < length xs \<Longrightarrow> i < length ys \<Longrightarrow> smul exact xs ys ! i = xs ! i * ys ! i"
  "i < length xs \<Longrightarrow> i < length ys \<Longrightarrow> spow exact xs ys ! i = xs ! i powr ys ! i"
  "i < length xs \<Longrightarrow> scalar_add exact a xs ! i = a + xs ! i"
  "i < length xs \<Longrightarrow> scalar_sub exact a xs ! i = a - xs ! i"
  "i < length xs \<Longrightarrow> scalar_div exact a xs ! i = a / xs ! i"
  "i < length xs \<Longrightarrow> div_scalar exact xs a ! i = xs ! i / a"
  by (simp_all add: sadd_def ssub_def smul_def spow_def scalar_add_def scalar_sub_def
      scalar_div_def div_scalar_def)

lemma nth_cumprod_from:
  "i < length xs \<Longrightarrow> cumprod_from exact a xs ! i = a * prod_list (take (Suc i) xs)"
proof (induction xs arbitrary: a i)
  case Nil
  then show ?case by simp
next
  case (Cons x xs)
  then show ?case by (cases i) (simp_all add: mult.assoc)
qed

lemma nth_cumsum_from:
  "i < length xs \<Longrightarrow> cumsum_from exact a xs ! i = a + sum_list (take (Suc i) xs)"
proof (induction xs arbitrary: a i)
  case Nil
  then show ?case by simp
next
  case (Cons x xs)
  then show ?case by (cases i) (simp_all add: add.assoc)
qed

lemma nth_cumprod: "i < length xs \<Longrightarrow> cumprod exact xs ! i = prod_list (take (Suc i) xs)"
proof (cases xs)
  case Nil
  then show "i < length xs \<Longrightarrow> ?thesis" by simp
next
  case (Cons x xs')
  then show "i < length xs \<Longrightarrow> ?thesis"
    by (cases i) (simp_all add: cumprod_def nth_cumprod_from)
qed

lemma nth_cumsum: "i < length xs \<Longrightarrow> cumsum exact xs ! i = sum_list (take (Suc i) xs)"
proof (cases xs)
  case Nil
  then show "i < length xs \<Longrightarrow> ?thesis" by simp
next
  case (Cons x xs')
  then show "i < length xs \<Longrightarrow> ?thesis"
    by (cases i) (simp_all add: cumsum_def nth_cumsum_from)
qed

lemma nth_shift1_cumprod:
  "i < length xs \<Longrightarrow> shift1 1 (cumprod exact xs) ! i = prod_list (take i xs)"
  by (cases i) (simp_all add: shift1_def nth_cumprod)

lemma last_cumsum: "xs \<noteq> [] \<Longrightarrow> last (cumsum exact xs) = sum_list xs"
proof -
  assume ne: "xs \<noteq> []"
  then have "cumsum exact xs \<noteq> []" by (cases xs) (simp_all add: cumsum_def)
  then have "last (cumsum exact xs) = cumsum exact xs ! (length xs - 1)"
    by (simp add: last_conv_nth)
  also from ne have "\<dots> = sum_list (take (Suc (length xs - 1)) xs)"
    by (simp add: nth_cumsum)
  also from ne have "\<dots> = sum_list xs" by simp
  finally show ?thesis .
qed

subsection \<open>The whole pipeline on a cohort with a period\<close>

lemma run_valuation_run:
  fixes ar :: arith and c :: CohortInput and h :: store
  defines "ps \<equiv> periods c"
  defines "pco \<equiv> map prob_charge_off ps" and "pat \<equiv> map prob_attrition ps"
    and "rb \<equiv> map revolving_balance ps" and "pa \<equiv> map purchase_amount ps"
    and "fcr \<equiv> map finance_charge_rate ps" and "fees \<equiv> map other_fees ps"
    and "per \<equiv> map (\<lambda>p. real_of_int (period p)) ps"
    and "fir \<equiv> replicate (length ps) (flat_interchange_rate (parameters c))"
    and "rate \<equiv> replicate (length ps) (discount_rate (parameters c))"
    and "na \<equiv> replicate (length ps) (real_of_int (num_accounts (parameters c)))"
  defines "sf \<equiv> ssub ar (scalar_sub ar 1 pco) pat"
  defines "cs \<equiv> shift1 1 (cumprod ar sf)"
  defines "bop \<equiv> smul ar (astype_float ar na) cs"
  defines "fc \<equiv> smul ar (smul ar bop rb) fcr" and "ic \<equiv> smul ar (smul ar bop pa) fir"
    and "fi \<equiv> smul ar bop fees" and "col \<equiv> smul ar (smul ar bop pco) rb"
  defines "revenue \<equiv> sadd ar (sadd ar fc ic) fi"
  defines "ni \<equiv> ssub ar revenue col"
  defines "dfac \<equiv> scalar_div ar 1 (spow ar (scalar_add ar 1 rate)
                   (div_scalar ar (astype_float ar per) 12))"
  defines "pv \<equiv> smul ar ni dfac"
  defines "base \<equiv> [(''period'', per), (''prob_charge_off'', pco), (''prob_attrition'', pat),
      (''revolving_balance'', rb), (''purchase_amount'', pa), (''finance_charge_rate'', fcr),
      (''other_fees'', fees), (''flat_interchange_rate'', fir), (''discount_rate'', rate),
      (''num_accounts'', na)]"
  defines "survival \<equiv> [(''survival_factor'', sf), (''cumulative_survival'', cs),
      (''active_accounts_bop'', bop), (''charge_off_accounts'', smul ar bop pco),
      (''attrition_accounts'', smul ar bop pat)]"
  defines "revenues \<equiv> [(''finance_charge'', fc), (''interchange'', ic), (''fee_income'', fi),
      (''total_revenue'', revenue)]"
  defines "costs \<equiv> [(''charge_off_loss'', col), (''total_cost'', col)]"
  defines "pvs \<equiv> [(''net_income'', ni), (''discount_factor'', dfac), (''pv_net_income'', pv),
      (''cumulative_pv'', cumsum ar pv)]"
  assumes ne: "periods c \<noteq> []" and n0: "num_accounts (parameters c) \<noteq> 0"
  shows "run_valuation ar c h =
    Inr ((length h + 4,
          \<lparr>total_pv = fsum ar pv,
           pv_per_account = rnd ar (fsum ar pv / rnd ar (real_of_int (num_accounts (parameters c)))),
           total_revenue = fsum ar revenue,
           total_cost = fsum ar col,
           total_net_income = fsum ar ni,
           final_survival_rate = rnd ar (last cs * last sf),
           num_periods = length ps,
           summary_num_accounts = num_accounts (parameters c)\<rparr>),
         h @ [\<lparr>index_size = length ps, columns = base\<rparr>,
              \<lparr>index_size = length ps, columns = base @ survival\<rparr>,
              \<lparr>index_size = length ps, columns = base @ survival @ revenues\<rparr>,
              \<lparr>index_size = length ps, columns = base @ survival @ revenues @ costs\<rparr>,
              \<lparr>index_size = length ps, columns = base @ survival @ revenues @ costs @ pvs\<rparr>])"
proof -
  define T0 where "T0 = \<lparr>index_size = length ps, columns = base\<rparr>"
  define T1 where "T1 = \<lparr>index_size = length ps, columns = base @ survival\<rparr>"
  define T2 where "T2 = \<lparr>index_size = length ps, columns = base @ survival @ revenues\<rparr>"
  define T3 where "T3 = \<lparr>index_size = length ps, columns = base @ survival @ revenues @ costs\<rparr>"
  define T4 where
    "T4 = \<lparr>index_size = length ps, columns = base @ survival @ revenues @ costs @ pvs\<rparr>"
  have len: "length sf = length ps" "length cs = length ps"
    by (simp_all add: sf_def cs_def pco_def pat_def)
  with ne have nonempty: "sf \<noteq> []" "cs \<noteq> []" by (auto simp: ps_def)
  have s0: "build_period_table c h = Inr (length h, h @ [T0])"
    unfolding T0_def base_def per_def pco_def pat_def rb_def pa_def fcr_def fees_def fir_def
      rate_def na_def ps_def
    by (rule build_period_table_run [OF ne])
  have s1: "compute_survival ar (length h) (h @ [T0]) = Inr (Suc (length h), h @ [T0, T1])"
    by (simp add: compute_survival_eq T0_def T1_def base_def survival_def
        bop_def cs_def sf_def)
  have s2: "compute_revenue ar (Suc (length h)) (h @ [T0, T1]) = Inr (Suc (Suc (length h)), h @ [T0, T1, T2])"
    by (simp add: compute_revenue_eq nth_append T1_def T2_def base_def survival_def revenues_def
        fc_def ic_def fi_def revenue_def)
  have s3: "compute_costs ar (Suc (Suc (length h))) (h @ [T0, T1, T2]) =
      Inr (Suc (Suc (Suc (length h))), h @ [T0, T1, T2, T3])"
    by (simp add: compute_costs_eq nth_append T2_def T3_def base_def survival_def revenues_def
        costs_def col_def)
  have s4: "compute_net_income_and_pv ar (Suc (Suc (Suc (length h)))) (h @ [T0, T1, T2, T3]) =
      Inr (Suc (Suc (Suc (Suc (length h)))), h @ [T0, T1, T2, T3, T4])"
    by (simp add: compute_net_income_and_pv_eq nth_append T3_def T4_def base_def survival_def
        revenues_def costs_def pvs_def ni_def dfac_def pv_def)
  have s5: "compute_summary ar (Suc (Suc (Suc (Suc (length h))))) (num_accounts (parameters c)) (h @ [T0, T1, T2, T3, T4]) =
      Inr (\<lparr>total_pv = fsum ar pv,
           pv_per_account = rnd ar (fsum ar pv / rnd ar (real_of_int (num_accounts (parameters c)))),
           total_revenue = fsum ar revenue,
           total_cost = fsum ar col,
           total_net_income = fsum ar ni,
           final_survival_rate = rnd ar (last cs * last sf),
           num_periods = length ps,
           summary_num_accounts = num_accounts (parameters c)\<rparr>, h @ [T0, T1, T2, T3, T4])"
    by (simp add: compute_summary_eq nth_append T4_def base_def survival_def
        revenues_def costs_def pvs_def n0 nonempty)
  show ?thesis
    unfolding run_valuation_def
    by (simp add: pbind_def s0 s1 s2 s3 s4 s5 ret_def flip: T0_def T1_def T2_def T3_def T4_def)
qed


subsection \<open>What validation guarantees\<close>

lemma violation_Nil [simp]: "violation name ok = [] \<longleftrightarrow> ok"
  by (simp add: violation_def)


lemma valid_parametersD:
  assumes "valid_parameters g"
  shows "0 \<le> flat_interchange_rate g" "flat_interchange_rate g \<le> 1"
    "0 \<le> discount_rate g" "0 < num_accounts g"
  using assms
  by (simp_all add: valid_parameters_def GlobalParameters_new_def
      GlobalParameters_field_errors_def Let_def split: if_splits)

lemma valid_cohortD:
  assumes "valid_cohort ar c"
  shows "\<And>p. p \<in> set (periods c) \<Longrightarrow> valid_period ar p"
    "valid_parameters (parameters c)"
    "map period (periods c) = [1..int (length (periods c))]"
  using assms
  by (simp_all add: valid_cohort_def list_all_iff CohortInput_new_def periods_sequential_def
      Let_def split: if_splits)



subsection \<open>The fixtures pass validation\<close>

lemma valid_default_params: "valid_parameters default_params"
  by (simp add: valid_parameters_def GlobalParameters_new_def GlobalParameters_field_errors_def
      default_params_def)

lemma valid_make_period: "1 \<le> t \<Longrightarrow> t \<le> 60 \<Longrightarrow> valid_period exact (make_period t)"
  by (simp add: valid_period_def PeriodData_new_def PeriodData_field_errors_def
      competing_risks_valid_def make_period_def)

lemma period_make_period [simp]: "period (make_period t) = t"
  by (simp add: make_period_def)

lemma valid_single_period_cohort: "valid_cohort exact single_period_cohort"
  by (simp add: valid_cohort_def valid_make_period valid_default_params single_period_cohort_def
      CohortInput_new_def periods_sequential_def upto.simps)

lemma valid_two_period_cohort: "valid_cohort exact two_period_cohort"
  by (simp add: valid_cohort_def valid_make_period valid_default_params two_period_cohort_def
      CohortInput_new_def periods_sequential_def upto.simps)

subsection \<open>Facts about validated cohorts and about the columns\<close>

lemma valid_cohort_accounts: "valid_cohort ar c \<Longrightarrow> num_accounts (parameters c) \<noteq> 0"
  using valid_parametersD(4) [OF valid_cohortD(2)] by fastforce





lemma survival_table_run:
  fixes c :: CohortInput and h :: store
  defines "ps \<equiv> periods c"
  defines "pco \<equiv> map prob_charge_off ps" and "pat \<equiv> map prob_attrition ps"
  defines "sf \<equiv> ssub exact (scalar_sub exact 1 pco) pat"
  defines "bop \<equiv> smul exact (replicate (length ps) (real_of_int (num_accounts (parameters c))))
                    (shift1 1 (cumprod exact sf))"
  assumes ne: "periods c \<noteq> []"
  shows "\<exists>h'. pbind (build_period_table c) (compute_survival exact) h = Inr (Suc (length h), h') \<and>
     index_size (h' ! Suc (length h)) = length ps \<and>
     map_of (columns (h' ! Suc (length h))) ''survival_factor'' = Some sf \<and>
     map_of (columns (h' ! Suc (length h))) ''cumulative_survival'' = Some (shift1 1 (cumprod exact sf)) \<and>
     map_of (columns (h' ! Suc (length h))) ''active_accounts_bop'' = Some bop \<and>
     map_of (columns (h' ! Suc (length h))) ''charge_off_accounts'' = Some (smul exact bop pco) \<and>
     map_of (columns (h' ! Suc (length h))) ''attrition_accounts'' = Some (smul exact bop pat)"
  unfolding ps_def pco_def pat_def sf_def bop_def
  by (simp add: pbind_def build_period_table_run [OF ne] compute_survival_eq update_conv'
      nth_append)




lemma conservation_sum:
  fixes sf pco pat :: "real list" and N :: real
  defines "bop \<equiv> smul exact (replicate (length sf) N) (shift1 1 (cumprod exact sf))"
  assumes len: "length pco = length sf" "length pat = length sf"
    and sf: "\<forall>i < length sf. sf ! i = 1 - pco ! i - pat ! i"
    and k: "k \<le> length sf"
  shows "sum_list (take k (smul exact bop pco)) + sum_list (take k (smul exact bop pat)) +
           N * prod_list (take k sf) = N"
  using k
proof (induction k)
  case 0
  then show ?case by simp
next
  case (Suc k)
  then have k: "k < length sf" by simp
  have lb: "length bop = length sf" by (simp add: bop_def)
  have bk: "bop ! k = N * prod_list (take k sf)"
    using k by (simp add: bop_def nth_series_ops nth_shift1_cumprod)
  have t1: "take (Suc k) (smul exact bop pco) = take k (smul exact bop pco) @ [bop ! k * pco ! k]"
    using k len lb by (simp add: take_Suc_conv_app_nth nth_series_ops)
  have t2: "take (Suc k) (smul exact bop pat) = take k (smul exact bop pat) @ [bop ! k * pat ! k]"
    using k len lb by (simp add: take_Suc_conv_app_nth nth_series_ops)
  have t3: "prod_list (take (Suc k) sf) = prod_list (take k sf) * (1 - pco ! k - pat ! k)"
    using k sf by (simp add: take_Suc_conv_app_nth)
  from Suc.IH k have "sum_list (take k (smul exact bop pco)) + sum_list (take k (smul exact bop pat)) +
      N * prod_list (take k sf) = N" by simp
  then show ?case
    by (simp add: t1 t2 t3 bk algebra_simps)
qed


lemma active_accounts_nth:
  assumes "i < length sf"
  shows "smul exact (replicate (length sf) N) (shift1 1 (cumprod exact sf)) ! i = N * prod_list (take i sf)"
  using assms by (simp add: nth_series_ops nth_shift1_cumprod)



lemma valid_full_charge_off_cohort: "valid_cohort exact full_charge_off_cohort"
  by (simp add: valid_cohort_def full_charge_off_cohort_def valid_default_params
      valid_period_def PeriodData_new_def PeriodData_field_errors_def competing_risks_valid_def
      make_period_def CohortInput_new_def periods_sequential_def upto.simps)

section \<open>Double arithmetic on given values\<close>

text \<open>
  A value whose magnitude, scaled by a power of two, lies between \<open>2\<close> to the 52 and \<open>2\<close> to
  the 53 is rounded at that scale. The lemmas after it evaluate, operation by operation, the
  roundings that the cohorts above go through.
\<close>

lemma double_simps [simp]:
  "rnd double = binary64" "fpow double = (\<lambda>x y. binary64 (x powr y))"
  by (simp_all add: double_def)

lemma binary64_eval:
  fixes x :: real and a :: nat
  assumes lo: "2 ^ 52 \<le> \<bar>x\<bar> * 2 ^ a" and hi: "\<bar>x\<bar> * 2 ^ a < 2 ^ 53" and a: "a \<le> 1074"
  shows "binary64 x = of_int (round_half_even (x * 2 ^ a)) / 2 ^ a"
proof -
  from lo have x0: "x \<noteq> 0" by auto
  then have pos: "0 < \<bar>x\<bar>" by simp
  have p: "2 powr (- real a) = 1 / 2 ^ a"
    by (simp add: powr_minus powr_realpow divide_inverse)
  have "2 powr (52 - real a) = 2 ^ 52 / 2 ^ a"
    by (simp add: powr_diff powr_realpow flip: powr_numeral)
  also have "\<dots> \<le> \<bar>x\<bar>"
    using lo by (simp add: field_simps)
  finally have l1: "52 - real a \<le> log 2 \<bar>x\<bar>"
    using pos by (simp add: le_log_iff)
  have "\<bar>x\<bar> < 2 ^ 53 / 2 ^ a"
    using hi by (simp add: field_simps)
  also have "\<dots> = 2 powr (53 - real a)"
    by (simp add: powr_diff powr_realpow flip: powr_numeral)
  finally have l2: "log 2 \<bar>x\<bar> < 53 - real a"
    using pos by (simp add: log_less_iff)
  have fl: "\<lfloor>log 2 \<bar>x\<bar>\<rfloor> = 52 - int a"
    using l1 l2 by (intro floor_unique) simp_all
  have e: "max (\<lfloor>log 2 \<bar>x\<bar>\<rfloor> - 52) (- 1074) = - int a"
    using a by (simp add: fl)
  show ?thesis
    using x0 by (simp add: binary64_def e Let_def p)
qed

lemma double_0_9: "binary64 (9 / 10) = 8106479329266893 / 2 ^ 53"
  by (subst binary64_eval [where a = 53]) (simp_all add: round_half_even_def Let_def)

lemma double_0_1: "binary64 (1 / 10) = 3602879701896397 / 2 ^ 55"
  by (subst binary64_eval [where a = 56]) (simp_all add: round_half_even_def Let_def)

lemma double_0_02: "binary64 (1 / 50) = 5764607523034235 / 2 ^ 58"
  by (subst binary64_eval [where a = 58]) (simp_all add: round_half_even_def Let_def)

lemma double_0_03: "binary64 (3 / 100) = 1080863910568919 / 2 ^ 55"
  by (subst binary64_eval [where a = 58]) (simp_all add: round_half_even_def Let_def)

lemma double_0_015: "binary64 (3 / 200) = 1080863910568919 / 2 ^ 56"
  by (subst binary64_eval [where a = 59]) (simp_all add: round_half_even_def Let_def)

lemma double_0_6: "binary64 (3 / 5) = 5404319552844595 / 2 ^ 53"
  by (subst binary64_eval [where a = 53]) (simp_all add: round_half_even_def Let_def)

lemma double_1em17: "binary64 (1 / 100000000000000000) = 6490371073168535 / 2 ^ 109"
  by (subst binary64_eval [where a = 109]) (simp_all add: round_half_even_def Let_def)






lemma double_1000: "binary64 (1000) = 1000"
  by (subst binary64_eval [where a = 43]) (simp_all add: round_half_even_def Let_def)





lemma double_tie: "binary64 (1 / 2 + (1 / 2 + 1 / 2 ^ 53)) = 1"
  by (subst binary64_eval [where a = 52]) (simp_all add: round_half_even_def Let_def)

lemma double_sum_06_05: "binary64 (binary64 (3 / 5) + 1 / 2) = 2476979795053773 / 2 ^ 51"
proof -
  have e15: "binary64 (3 / 5) = 5404319552844595 / 2 ^ 53"
      by (subst binary64_eval [where a = 53]) (simp_all add: round_half_even_def Let_def)
  have e16: "binary64 (5404319552844595 / 2 ^ 53 + 1 / 2) = 2476979795053773 / 2 ^ 51"
      by (subst binary64_eval [where a = 52]) (simp_all add: round_half_even_def Let_def)
  show ?thesis
    by (simp only: e15 e16)
qed


lemma double_sum_06_05_gt: "1 < binary64 (binary64 (3 / 5) + 1 / 2)"
  unfolding double_sum_06_05 by simp

lemma double_tie_le: "binary64 (1 / 2 + (1 / 2 + 1 / 2 ^ 53)) \<le> 1"
  unfolding double_tie by simp

lemma double_0_6_bounds: "0 \<le> binary64 (3 / 5)" "binary64 (3 / 5) \<le> 1"
  unfolding double_0_6 by simp_all

lemma double_5000000: "binary64 5000000 = 5000000"
  by (subst binary64_eval [where a = 30]) (simp_all add: round_half_even_def Let_def)

lemma double_1000000: "binary64 1000000 = 1000000"
  by (subst binary64_eval [where a = 33]) (simp_all add: round_half_even_def Let_def)

lemma double_25000: "binary64 25000 = 25000"
  by (subst binary64_eval [where a = 38]) (simp_all add: round_half_even_def Let_def)

lemma double_20000: "binary64 20000 = 20000"
  by (subst binary64_eval [where a = 38]) (simp_all add: round_half_even_def Let_def)

lemma double_95000: "binary64 95000 = 95000"
  by (subst binary64_eval [where a = 36]) (simp_all add: round_half_even_def Let_def)

lemma double_100000: "binary64 100000 = 100000"
  by (subst binary64_eval [where a = 36]) (simp_all add: round_half_even_def Let_def)

lemma double_120000: "binary64 120000 = 120000"
  by (subst binary64_eval [where a = 36]) (simp_all add: round_half_even_def Let_def)

lemma double_finance_charge: "binary64 (5000000 * (1080863910568919 / 2 ^ 56)) = 75000"
  by (subst binary64_eval [where a = 36]) (simp_all add: round_half_even_def Let_def)

lemma double_interchange: "binary64 (1000000 * (5764607523034235 / 2 ^ 58)) = 20000"
  by (subst binary64_eval [where a = 38]) (simp_all add: round_half_even_def Let_def)

lemma double_charge_offs: "binary64 (1000 * (5764607523034235 / 2 ^ 58)) = 20"
  by (subst binary64_eval [where a = 48]) (simp_all add: round_half_even_def Let_def)

subsection \<open>The double fixtures pass validation\<close>

lemma double_literal_bounds:
  "0 \<le> binary64 (9 / 10)" "binary64 (9 / 10) \<le> 1"
  "0 \<le> binary64 (1 / 10)" "binary64 (1 / 10) \<le> 1"
  "0 \<le> binary64 (1 / 50)" "binary64 (1 / 50) \<le> 1"
  "0 \<le> binary64 (3 / 100)" "binary64 (3 / 100) \<le> 1"
  "0 \<le> binary64 (3 / 200)" "binary64 (3 / 200) \<le> 1"
  "0 < binary64 (1 / 100000000000000000)" "0 \<le> binary64 (1 / 100000000000000000)"
  by (simp_all add: double_0_9 double_0_1 double_0_02 double_0_03 double_0_015 double_1em17)




lemma period_make_period_double [simp]: "period (make_period_double t p q) = t"
  by (simp add: make_period_double_def)




section \<open>The claims\<close>

subsection \<open>C1: a validated cohort on which the pipeline raises\<close>

lemma run_valuation_returns:
  assumes "valid_cohort ar c" and "periods c \<noteq> []"
  shows "\<exists>r s h'. run_valuation ar' c h = Inr ((r, s), h')"
proof -
  from run_valuation_run [OF assms(2) valid_cohort_accounts [OF assms(1)]] show ?thesis
    by blast
qed

text \<open>
  C1 says that \<^const>\<open>run_valuation\<close> returns for every cohort that passes validation, the
  cohort with no periods included. The cohort with an empty period list and the default
  parameters is what its constructor returns, so it passes validation, and on it
  \<^const>\<open>run_valuation\<close> raises \<^verbatim>\<open>KeyError('prob_charge_off')\<close>: the table built from no
  records has no period columns, and \<^const>\<open>compute_survival\<close> reads one. (With one period
  or more the pipeline returns: \<open>run_valuation_returns\<close>.)
\<close>

theorem run_valuation_empty_cohort:
  "CohortInput_new [] default_params = Inr \<lparr>periods = [], parameters = default_params\<rparr> \<and>
   valid_cohort exact \<lparr>periods = [], parameters = default_params\<rparr> \<and>
   run_valuation exact \<lparr>periods = [], parameters = default_params\<rparr> [] =
     Inl (KeyError ''prob_charge_off'') \<and>
   valid_cohort double \<lparr>periods = [], parameters = default_params\<rparr> \<and>
   run_valuation double \<lparr>periods = [], parameters = default_params\<rparr> [] =
     Inl (KeyError ''prob_charge_off'')"
  by (simp add: run_valuation_empty valid_cohort_def valid_default_params CohortInput_new_def
      periods_sequential_def upto.simps)

subsection \<open>C2: account conservation\<close>

text \<open>
  C2: in exact arithmetic, for every validated cohort and every prefix of periods \<open>1..k\<close> of the table that
  \<^const>\<open>compute_survival\<close> produces from the cohort's base table, the charge-off accounts
  of the prefix, plus its attrition accounts, plus the active accounts at the beginning of
  period \<open>k\<close> times the survival factor of period \<open>k\<close>, equal the number of accounts of the
  cohort (row \<open>k - 1\<close> is period \<open>k\<close>).
\<close>

theorem account_conservation:
  assumes "valid_cohort ar c" and "1 \<le> k" and "k \<le> length (periods c)"
  shows "\<exists>r h' coa ata bop sf.
     pbind (build_period_table c) (compute_survival exact) h = Inr (r, h') \<and>
     map_of (columns (h' ! r)) ''charge_off_accounts'' = Some coa \<and>
     map_of (columns (h' ! r)) ''attrition_accounts'' = Some ata \<and>
     map_of (columns (h' ! r)) ''active_accounts_bop'' = Some bop \<and>
     map_of (columns (h' ! r)) ''survival_factor'' = Some sf \<and>
     length coa = length (periods c) \<and> length ata = length (periods c) \<and>
     length bop = length (periods c) \<and> length sf = length (periods c) \<and>
     sum_list (take k coa) + sum_list (take k ata) + bop ! (k - 1) * sf ! (k - 1) =
       real_of_int (num_accounts (parameters c))"
proof -
  let ?ps = "periods c"
  let ?N = "real_of_int (num_accounts (parameters c))"
  let ?pco = "map prob_charge_off ?ps" and ?pat = "map prob_attrition ?ps"
  let ?sf = "ssub exact (scalar_sub exact 1 ?pco) ?pat"
  let ?bop = "smul exact (replicate (length ?ps) ?N) (shift1 1 (cumprod exact ?sf))"
  from assms(2,3) have ne: "?ps \<noteq> []" by auto
  from survival_table_run [OF ne, where h = h] obtain h' where
    run: "pbind (build_period_table c) (compute_survival exact) h = Inr (Suc (length h), h')" and
    sf: "map_of (columns (h' ! Suc (length h))) ''survival_factor'' = Some ?sf" and
    bop: "map_of (columns (h' ! Suc (length h))) ''active_accounts_bop'' = Some ?bop" and
    coa: "map_of (columns (h' ! Suc (length h))) ''charge_off_accounts'' = Some (smul exact ?bop ?pco)" and
    ata: "map_of (columns (h' ! Suc (length h))) ''attrition_accounts'' = Some (smul exact ?bop ?pat)"
    by blast
  have lsf: "length ?sf = length ?ps" by simp
  have lens: "length (smul exact ?bop ?pco) = length ?ps" "length (smul exact ?bop ?pat) = length ?ps"
    "length ?bop = length ?ps"
    by simp_all
  have bop': "?bop = smul exact (replicate (length ?sf) ?N) (shift1 1 (cumprod exact ?sf))"
    by simp
  have total: "sum_list (take k (smul exact ?bop ?pco)) + sum_list (take k (smul exact ?bop ?pat)) +
      ?N * prod_list (take k ?sf) = ?N"
    unfolding bop'
    by (rule conservation_sum) (use assms(3) in \<open>simp_all add: nth_series_ops\<close>)
  from assms(2,3) have k1: "k - 1 < length ?sf" "Suc (k - 1) = k" by simp_all
  have "?bop ! (k - 1) * ?sf ! (k - 1) = ?N * prod_list (take (k - 1) ?sf) * ?sf ! (k - 1)"
    unfolding bop' by (simp only: active_accounts_nth [OF k1(1)])
  also have "\<dots> = ?N * prod_list (take (Suc (k - 1)) ?sf)"
    using k1(1) by (simp add: take_Suc_conv_app_nth)
  finally have last: "?bop ! (k - 1) * ?sf ! (k - 1) = ?N * prod_list (take k ?sf)"
    by (simp only: k1(2))
  from total last have eq: "sum_list (take k (smul exact ?bop ?pco)) + sum_list (take k (smul exact ?bop ?pat)) +
      ?bop ! (k - 1) * ?sf ! (k - 1) = ?N"
    by simp
  from run sf bop coa ata lsf lens eq show ?thesis
    by blast
qed

theorem account_conservation_witness:
  "valid_cohort exact two_period_cohort \<and> (1::nat) \<le> 2 \<and> 2 \<le> length (periods two_period_cohort) \<and>
   (\<exists>r h' coa ata bop sf.
     pbind (build_period_table two_period_cohort) (compute_survival exact) [] = Inr (r, h') \<and>
     map_of (columns (h' ! r)) ''charge_off_accounts'' = Some coa \<and>
     map_of (columns (h' ! r)) ''attrition_accounts'' = Some ata \<and>
     map_of (columns (h' ! r)) ''active_accounts_bop'' = Some bop \<and>
     map_of (columns (h' ! r)) ''survival_factor'' = Some sf \<and>
     length coa = length (periods two_period_cohort) \<and> length ata = length (periods two_period_cohort) \<and>
     length bop = length (periods two_period_cohort) \<and> length sf = length (periods two_period_cohort) \<and>
     sum_list (take 2 coa) + sum_list (take 2 ata) + bop ! (2 - 1) * sf ! (2 - 1) =
       real_of_int (num_accounts (parameters two_period_cohort)))"
proof (intro conjI)
  show v: "valid_cohort exact two_period_cohort"
    by (rule valid_two_period_cohort)
  show k1: "(1::nat) \<le> 2"
    by simp
  show k2: "2 \<le> length (periods two_period_cohort)"
    by (simp add: two_period_cohort_def)
  show "\<exists>r h' coa ata bop sf.
     pbind (build_period_table two_period_cohort) (compute_survival exact) [] = Inr (r, h') \<and>
     map_of (columns (h' ! r)) ''charge_off_accounts'' = Some coa \<and>
     map_of (columns (h' ! r)) ''attrition_accounts'' = Some ata \<and>
     map_of (columns (h' ! r)) ''active_accounts_bop'' = Some bop \<and>
     map_of (columns (h' ! r)) ''survival_factor'' = Some sf \<and>
     length coa = length (periods two_period_cohort) \<and> length ata = length (periods two_period_cohort) \<and>
     length bop = length (periods two_period_cohort) \<and> length sf = length (periods two_period_cohort) \<and>
     sum_list (take 2 coa) + sum_list (take 2 ata) + bop ! (2 - 1) * sf ! (2 - 1) =
       real_of_int (num_accounts (parameters two_period_cohort))"
    by (rule account_conservation [OF v k1 k2])
qed

subsection \<open>C3: monotonic decay\<close>




subsection \<open>C4: discounting\<close>




subsection \<open>C5: the cumulative present value\<close>

text \<open>
  C5: in exact arithmetic, for every validated cohort with a period, the cumulative present value column of the
  completed table is the running sum of the present value column, and its value in the last
  row equals the summary's total present value, the sum of the present value column.
\<close>

theorem cumulative_pv_identity:
  assumes "valid_cohort ar c" and "periods c \<noteq> []"
  shows "\<exists>r s h' pv cpv. run_valuation exact c h = Inr ((r, s), h') \<and>
     map_of (columns (h' ! r)) ''pv_net_income'' = Some pv \<and>
     map_of (columns (h' ! r)) ''cumulative_pv'' = Some cpv \<and>
     length cpv = length (periods c) \<and>
     (\<forall>i < length cpv. cpv ! i = sum_list (take (Suc i) pv)) \<and>
     total_pv s = sum_list pv \<and>
     last cpv = total_pv s"
proof -
  let ?n = "length (periods c)"
  note run = run_valuation_run [OF assms(2) valid_cohort_accounts [OF assms(1)], where ar = exact and h = h]
  obtain s h' pv where
    r: "run_valuation exact c h = Inr ((length h + 4, s), h')" and
    pv: "map_of (columns (h' ! (length h + 4))) ''pv_net_income'' = Some pv" and
    cpv: "map_of (columns (h' ! (length h + 4))) ''cumulative_pv'' = Some (cumsum exact pv)" and
    tot: "total_pv s = sum_list pv" and len: "length pv = ?n"
    by (simp add: run nth_append)
  from len assms(2) have "pv \<noteq> []" by auto
  then have "last (cumsum exact pv) = sum_list pv" by (rule last_cumsum)
  with r pv cpv tot len show ?thesis
    by (auto simp: nth_cumsum)
qed

theorem cumulative_pv_identity_witness:
  "valid_cohort exact two_period_cohort \<and> periods two_period_cohort \<noteq> [] \<and>
   (\<exists>r s h' pv cpv. run_valuation exact two_period_cohort [] = Inr ((r, s), h') \<and>
     map_of (columns (h' ! r)) ''pv_net_income'' = Some pv \<and>
     map_of (columns (h' ! r)) ''cumulative_pv'' = Some cpv \<and>
     length cpv = length (periods two_period_cohort) \<and>
     (\<forall>i < length cpv. cpv ! i = sum_list (take (Suc i) pv)) \<and>
     total_pv s = sum_list pv \<and>
     last cpv = total_pv s)"
proof (intro conjI)
  show v: "valid_cohort exact two_period_cohort"
    by (rule valid_two_period_cohort)
  show ne: "periods two_period_cohort \<noteq> []"
    by (simp add: two_period_cohort_def)
  show "\<exists>r s h' pv cpv. run_valuation exact two_period_cohort [] = Inr ((r, s), h') \<and>
     map_of (columns (h' ! r)) ''pv_net_income'' = Some pv \<and>
     map_of (columns (h' ! r)) ''cumulative_pv'' = Some cpv \<and>
     length cpv = length (periods two_period_cohort) \<and>
     (\<forall>i < length cpv. cpv ! i = sum_list (take (Suc i) pv)) \<and>
     total_pv s = sum_list pv \<and>
     last cpv = total_pv s"
    by (rule cumulative_pv_identity [OF v ne])
qed

subsection \<open>C6: the reference scenario\<close>

text \<open>
  C6: on the single-period cohort of the tests (1000 accounts, charge-off probability 0.02,
  attrition probability 0.03, balance 5000, purchases 1000, finance charge rate 0.015, fees 25,
  interchange rate 0.02, discount rate 0.10), \<^const>\<open>run_valuation\<close> returns a table whose
  only row has 1000 active accounts, finance charge 75000, interchange 20000, fee income
  25000, charge-off loss 100000, net income 20000 and discount factor \<open>1.10\<close> to the power
  \<open>- 1 / 12\<close>. This is so in exact arithmetic; in double arithmetic, on the doubles that the
  literals denote, the six amounts are the same doubles (the discount factor is then what
  the library's power function returns, near \<open>1.10\<close> to the power \<open>- 1 / 12\<close>).
\<close>

theorem reference_scenario:
  "(\<exists>s h'. run_valuation exact single_period_cohort [] = Inr ((4, s), h') \<and>
     map_of (columns (h' ! 4)) ''active_accounts_bop'' = Some [1000] \<and>
     map_of (columns (h' ! 4)) ''finance_charge'' = Some [75000] \<and>
     map_of (columns (h' ! 4)) ''interchange'' = Some [20000] \<and>
     map_of (columns (h' ! 4)) ''fee_income'' = Some [25000] \<and>
     map_of (columns (h' ! 4)) ''charge_off_loss'' = Some [100000] \<and>
     map_of (columns (h' ! 4)) ''net_income'' = Some [20000] \<and>
     map_of (columns (h' ! 4)) ''discount_factor'' = Some [(110 / 100) powr (- 1 / 12)]) \<and>
   (\<exists>s h'. run_valuation double single_period_cohort_double [] = Inr ((4, s), h') \<and>
     map_of (columns (h' ! 4)) ''active_accounts_bop'' = Some [1000] \<and>
     map_of (columns (h' ! 4)) ''finance_charge'' = Some [75000] \<and>
     map_of (columns (h' ! 4)) ''interchange'' = Some [20000] \<and>
     map_of (columns (h' ! 4)) ''fee_income'' = Some [25000] \<and>
     map_of (columns (h' ! 4)) ''charge_off_loss'' = Some [100000] \<and>
     map_of (columns (h' ! 4)) ''net_income'' = Some [20000])"
proof (rule conjI)
  have ne: "periods single_period_cohort \<noteq> []"
    by (simp add: single_period_cohort_def)
  have n0: "num_accounts (parameters single_period_cohort) \<noteq> 0"
    by (simp add: single_period_cohort_def default_params_def)
  have pw: "(110 / 100 :: real) powr (- 1 / 12) = 1 / (11 / 10) powr (1 / 12)"
    by (simp add: powr_minus_divide)
  show "\<exists>s h'. run_valuation exact single_period_cohort [] = Inr ((4, s), h') \<and>
     map_of (columns (h' ! 4)) ''active_accounts_bop'' = Some [1000] \<and>
     map_of (columns (h' ! 4)) ''finance_charge'' = Some [75000] \<and>
     map_of (columns (h' ! 4)) ''interchange'' = Some [20000] \<and>
     map_of (columns (h' ! 4)) ''fee_income'' = Some [25000] \<and>
     map_of (columns (h' ! 4)) ''charge_off_loss'' = Some [100000] \<and>
     map_of (columns (h' ! 4)) ''net_income'' = Some [20000] \<and>
     map_of (columns (h' ! 4)) ''discount_factor'' = Some [(110 / 100) powr (- 1 / 12)]"
    unfolding run_valuation_run [OF ne n0, where ar = exact and h = "[]"] pw
    by (simp add: single_period_cohort_def default_params_def make_period_def
        sadd_def ssub_def smul_def spow_def scalar_add_def scalar_sub_def scalar_div_def
        div_scalar_def cumprod_def shift1_def)
next
  have ne: "periods single_period_cohort_double \<noteq> []"
    by (simp add: single_period_cohort_double_def)
  have n0: "num_accounts (parameters single_period_cohort_double) \<noteq> 0"
    by (simp add: single_period_cohort_double_def default_params_double_def)
  show "\<exists>s h'. run_valuation double single_period_cohort_double [] = Inr ((4, s), h') \<and>
     map_of (columns (h' ! 4)) ''active_accounts_bop'' = Some [1000] \<and>
     map_of (columns (h' ! 4)) ''finance_charge'' = Some [75000] \<and>
     map_of (columns (h' ! 4)) ''interchange'' = Some [20000] \<and>
     map_of (columns (h' ! 4)) ''fee_income'' = Some [25000] \<and>
     map_of (columns (h' ! 4)) ''charge_off_loss'' = Some [100000] \<and>
     map_of (columns (h' ! 4)) ''net_income'' = Some [20000]"
    unfolding run_valuation_run [OF ne n0, where ar = double and h = "[]"]
    by (simp add: single_period_cohort_double_def default_params_double_def
        make_period_double_def
        sadd_def ssub_def smul_def scalar_sub_def astype_float_def cumprod_def shift1_def
        double_1000 double_0_02 double_0_015 double_5000000 double_1000000 double_25000
        double_20000 double_95000 double_100000 double_120000
        double_finance_charge [simplified] double_interchange [simplified]
        double_charge_offs [simplified])
qed

subsection \<open>C7: competing-risk validation\<close>

text \<open>
  C7, as amended: with every field in its range, constructing a \<^verbatim>\<open>PeriodData\<close> succeeds
  if and only if the sum of the charge-off and attrition probabilities, as the arithmetic
  computes it (in the code: rounded to a double), is at most 1 (exactly 1 is accepted, and
  so is a pair whose exact sum exceeds 1 and rounds to 1); when it fails, the message of the
  error is \<^verbatim>\<open>prob_charge_off (<p>) + prob_attrition (<q>) exceeds 1.0\<close>, which names the
  two probabilities and the bound, and does not name their sum. The statement holds for
  every arithmetic, the exact one and the double one included.
\<close>

theorem competing_risk_validation:
  assumes "PeriodData_field_errors
      \<lparr>period = per, prob_charge_off = pco, prob_attrition = pat, revolving_balance = rb,
       purchase_amount = pa, finance_charge_rate = fcr, other_fees = fees\<rparr> = []"
  shows "((\<exists>p. PeriodData_new ar per pco pat rb pa fcr fees = Inr p) \<longleftrightarrow>
       rnd ar (pco + pat) \<le> 1) \<and>
    (rnd ar (pco + pat) \<le> 1 \<longrightarrow>
       PeriodData_new ar per pco pat rb pa fcr fees =
         Inr \<lparr>period = per, prob_charge_off = pco, prob_attrition = pat, revolving_balance = rb,
              purchase_amount = pa, finance_charge_rate = fcr, other_fees = fees\<rparr>) \<and>
    (1 < rnd ar (pco + pat) \<longrightarrow>
       PeriodData_new ar per pco pat rb pa fcr fees =
         Inl (ValidationError [ValueError
           [Lit ''prob_charge_off ('', FloatArg pco, Lit '') + '',
            Lit ''prob_attrition ('', FloatArg pat, Lit '') exceeds 1.0'']]) \<and>
       FloatArg (rnd ar (pco + pat)) \<notin> set
           [Lit ''prob_charge_off ('', FloatArg pco, Lit '') + '',
            Lit ''prob_attrition ('', FloatArg pat, Lit '') exceeds 1.0''])"
proof -
  from assms have range: "0 \<le> pco" "pco \<le> 1" "0 \<le> pat" "pat \<le> 1"
    by (simp_all add: PeriodData_field_errors_def)
  have ok: "PeriodData_new ar per pco pat rb pa fcr fees =
         Inr \<lparr>period = per, prob_charge_off = pco, prob_attrition = pat, revolving_balance = rb,
              purchase_amount = pa, finance_charge_rate = fcr, other_fees = fees\<rparr>"
    if "rnd ar (pco + pat) \<le> 1"
    using that assms by (simp add: PeriodData_new_def competing_risks_valid_def)
  have bad: "PeriodData_new ar per pco pat rb pa fcr fees =
         Inl (ValidationError [ValueError
           [Lit ''prob_charge_off ('', FloatArg pco, Lit '') + '',
            Lit ''prob_attrition ('', FloatArg pat, Lit '') exceeds 1.0'']])"
    if "1 < rnd ar (pco + pat)"
    using that assms by (simp add: PeriodData_new_def competing_risks_valid_def)
  have sum: "FloatArg (rnd ar (pco + pat)) \<notin> set
           [Lit ''prob_charge_off ('', FloatArg pco, Lit '') + '',
            Lit ''prob_attrition ('', FloatArg pat, Lit '') exceeds 1.0'']"
    if "1 < rnd ar (pco + pat)"
    using that range by auto
  have iff: "(\<exists>p. PeriodData_new ar per pco pat rb pa fcr fees = Inr p) \<longleftrightarrow>
      rnd ar (pco + pat) \<le> 1"
  proof (cases "rnd ar (pco + pat) \<le> 1")
    case True
    with ok show ?thesis by simp
  next
    case False
    then have "1 < rnd ar (pco + pat)" by simp
    from bad [OF this] False show ?thesis by simp
  qed
  from iff ok bad sum show ?thesis
    by blast
qed

theorem competing_risk_validation_witness:
  "PeriodData_field_errors
      \<lparr>period = 1, prob_charge_off = binary64 (3 / 5), prob_attrition = 1 / 2,
       revolving_balance = 5000, purchase_amount = 1000, finance_charge_rate = binary64 (3 / 200),
       other_fees = 25\<rparr> = [] \<and>
   1 < rnd double (binary64 (3 / 5) + 1 / 2) \<and>
   PeriodData_new double 1 (binary64 (3 / 5)) (1 / 2) 5000 1000 (binary64 (3 / 200)) 25 =
     Inl (ValidationError [ValueError
           [Lit ''prob_charge_off ('', FloatArg (binary64 (3 / 5)), Lit '') + '',
            Lit ''prob_attrition ('', FloatArg (1 / 2), Lit '') exceeds 1.0'']]) \<and>
   PeriodData_field_errors
      \<lparr>period = 1, prob_charge_off = 1 / 2, prob_attrition = 1 / 2 + 1 / 2 ^ 53,
       revolving_balance = 5000, purchase_amount = 1000, finance_charge_rate = binary64 (3 / 200),
       other_fees = 25\<rparr> = [] \<and>
   rnd double (1 / 2 + (1 / 2 + 1 / 2 ^ 53)) \<le> 1 \<and>
   PeriodData_new double 1 (1 / 2) (1 / 2 + 1 / 2 ^ 53) 5000 1000 (binary64 (3 / 200)) 25 =
     Inr \<lparr>period = 1, prob_charge_off = 1 / 2, prob_attrition = 1 / 2 + 1 / 2 ^ 53,
          revolving_balance = 5000, purchase_amount = 1000,
          finance_charge_rate = binary64 (3 / 200), other_fees = 25\<rparr>"
proof (intro conjI)
  show f1: "PeriodData_field_errors
      \<lparr>period = 1, prob_charge_off = binary64 (3 / 5), prob_attrition = 1 / 2,
       revolving_balance = 5000, purchase_amount = 1000, finance_charge_rate = binary64 (3 / 200),
       other_fees = 25\<rparr> = []"
    by (simp add: PeriodData_field_errors_def violation_def double_0_6_bounds
        double_literal_bounds)
  show gt: "1 < rnd double (binary64 (3 / 5) + 1 / 2)"
    unfolding double_simps by (rule double_sum_06_05_gt)
  from competing_risk_validation [OF f1, where ar = double] gt
  show "PeriodData_new double 1 (binary64 (3 / 5)) (1 / 2) 5000 1000 (binary64 (3 / 200)) 25 =
     Inl (ValidationError [ValueError
           [Lit ''prob_charge_off ('', FloatArg (binary64 (3 / 5)), Lit '') + '',
            Lit ''prob_attrition ('', FloatArg (1 / 2), Lit '') exceeds 1.0'']])"
    by blast
  show f2: "PeriodData_field_errors
      \<lparr>period = 1, prob_charge_off = 1 / 2, prob_attrition = 1 / 2 + 1 / 2 ^ 53,
       revolving_balance = 5000, purchase_amount = 1000, finance_charge_rate = binary64 (3 / 200),
       other_fees = 25\<rparr> = []"
    by (simp add: PeriodData_field_errors_def violation_def double_literal_bounds)
  show le: "rnd double (1 / 2 + (1 / 2 + 1 / 2 ^ 53)) \<le> 1"
    unfolding double_simps by (rule double_tie_le)
  from competing_risk_validation [OF f2, where ar = double] le
  show "PeriodData_new double 1 (1 / 2) (1 / 2 + 1 / 2 ^ 53) 5000 1000 (binary64 (3 / 200)) 25 =
     Inr \<lparr>period = 1, prob_charge_off = 1 / 2, prob_attrition = 1 / 2 + 1 / 2 ^ 53,
          revolving_balance = 5000, purchase_amount = 1000,
          finance_charge_rate = binary64 (3 / 200), other_fees = 25\<rparr>"
    by blast
qed

text \<open>
  C7 as stated fails twice in the double arithmetic of the code. For the probabilities
  \<^verbatim>\<open>0.6\<close> and \<^verbatim>\<open>0.5\<close> of \<^verbatim>\<open>test_competing_risks_exceed_one\<close> the values the message
  interpolates are the two probabilities, and their sum is not among them. For the
  probabilities \<^verbatim>\<open>0.5\<close> and \<^verbatim>\<open>0.5000000000000001\<close>, which is \<open>1 / 2 + 1 / 2 ^ 53\<close>, the
  exact sum exceeds 1 and the construction succeeds: the sum rounds to \<^verbatim>\<open>1.0\<close>.
\<close>

theorem competing_risk_message_counterexample:
  "PeriodData_new double 1 (binary64 (3 / 5)) (1 / 2) 5000 1000 (binary64 (3 / 200)) 25 =
     Inl (ValidationError [ValueError
           [Lit ''prob_charge_off ('', FloatArg (binary64 (3 / 5)), Lit '') + '',
            Lit ''prob_attrition ('', FloatArg (1 / 2), Lit '') exceeds 1.0'']]) \<and>
   FloatArg (binary64 (binary64 (3 / 5) + 1 / 2)) \<notin> set
           [Lit ''prob_charge_off ('', FloatArg (binary64 (3 / 5)), Lit '') + '',
            Lit ''prob_attrition ('', FloatArg (1 / 2), Lit '') exceeds 1.0''] \<and>
   (1 :: real) < 1 / 2 + (1 / 2 + 1 / 2 ^ 53) \<and>
   PeriodData_new double 1 (1 / 2) (1 / 2 + 1 / 2 ^ 53) 5000 1000 (binary64 (3 / 200)) 25 =
     Inr \<lparr>period = 1, prob_charge_off = 1 / 2, prob_attrition = 1 / 2 + 1 / 2 ^ 53,
          revolving_balance = 5000, purchase_amount = 1000,
          finance_charge_rate = binary64 (3 / 200), other_fees = 25\<rparr>"
proof (intro conjI)
  have f1: "PeriodData_field_errors
      \<lparr>period = 1, prob_charge_off = binary64 (3 / 5), prob_attrition = 1 / 2,
       revolving_balance = 5000, purchase_amount = 1000, finance_charge_rate = binary64 (3 / 200),
       other_fees = 25\<rparr> = []"
    by (simp add: PeriodData_field_errors_def violation_def double_0_6_bounds
        double_literal_bounds)
  have gt: "1 < binary64 (binary64 (3 / 5) + 1 / 2)"
    by (rule double_sum_06_05_gt)
  show "PeriodData_new double 1 (binary64 (3 / 5)) (1 / 2) 5000 1000 (binary64 (3 / 200)) 25 =
     Inl (ValidationError [ValueError
           [Lit ''prob_charge_off ('', FloatArg (binary64 (3 / 5)), Lit '') + '',
            Lit ''prob_attrition ('', FloatArg (1 / 2), Lit '') exceeds 1.0'']])"
    using f1 gt by (simp add: PeriodData_new_def competing_risks_valid_def)
  show "FloatArg (binary64 (binary64 (3 / 5) + 1 / 2)) \<notin> set
           [Lit ''prob_charge_off ('', FloatArg (binary64 (3 / 5)), Lit '') + '',
            Lit ''prob_attrition ('', FloatArg (1 / 2), Lit '') exceeds 1.0'']"
    using gt double_0_6_bounds by auto
  show "(1 :: real) < 1 / 2 + (1 / 2 + 1 / 2 ^ 53)"
    by simp
  have f2: "PeriodData_field_errors
      \<lparr>period = 1, prob_charge_off = 1 / 2, prob_attrition = 1 / 2 + 1 / 2 ^ 53,
       revolving_balance = 5000, purchase_amount = 1000, finance_charge_rate = binary64 (3 / 200),
       other_fees = 25\<rparr> = []"
    by (simp add: PeriodData_field_errors_def violation_def double_literal_bounds)
  have le: "\<not> 1 < binary64 (1 / 2 + (1 / 2 + 1 / 2 ^ 53))"
    using double_tie_le by (simp only: not_less)
  have "competing_risks_valid double \<lparr>period = 1, prob_charge_off = 1 / 2,
          prob_attrition = 1 / 2 + 1 / 2 ^ 53,
          revolving_balance = 5000, purchase_amount = 1000,
          finance_charge_rate = binary64 (3 / 200), other_fees = 25\<rparr> =
     Inr \<lparr>period = 1, prob_charge_off = 1 / 2, prob_attrition = 1 / 2 + 1 / 2 ^ 53,
          revolving_balance = 5000, purchase_amount = 1000,
          finance_charge_rate = binary64 (3 / 200), other_fees = 25\<rparr>"
    unfolding competing_risks_valid_def double_simps
    by (simp only: PeriodData.simps le if_False)
  then show "PeriodData_new double 1 (1 / 2) (1 / 2 + 1 / 2 ^ 53) 5000 1000 (binary64 (3 / 200)) 25 =
     Inr \<lparr>period = 1, prob_charge_off = 1 / 2, prob_attrition = 1 / 2 + 1 / 2 ^ 53,
          revolving_balance = 5000, purchase_amount = 1000,
          finance_charge_rate = binary64 (3 / 200), other_fees = 25\<rparr>"
    unfolding PeriodData_new_def Let_def by (simp only: f2 simp_thms if_False)
qed

subsection \<open>C8: sequential-period validation\<close>

lemma sequential_iff_nth:
  "map period ps = [1..int (length ps)] \<longleftrightarrow> (\<forall>i < length ps. period (ps ! i) = int i + 1)"
proof
  assume eq: "map period ps = [1..int (length ps)]"
  show "\<forall>i < length ps. period (ps ! i) = int i + 1"
  proof (intro allI impI)
    fix i
    assume i: "i < length ps"
    then have "period (ps ! i) = map period ps ! i" by simp
    also have "\<dots> = [1..int (length ps)] ! i" by (simp only: eq)
    also have "\<dots> = 1 + int i" using i by (intro nth_upto) simp
    finally show "period (ps ! i) = int i + 1" by simp
  qed
next
  assume nth: "\<forall>i < length ps. period (ps ! i) = int i + 1"
  show "map period ps = [1..int (length ps)]"
  proof (rule nth_equalityI)
    show "length (map period ps) = length [1..int (length ps)]" by simp
  next
    fix i
    assume "i < length (map period ps)"
    then have i: "i < length ps" by simp
    have "[1..int (length ps)] ! i = 1 + int i" using i by (intro nth_upto) simp
    with nth i show "map period ps ! i = [1..int (length ps)] ! i" by simp
  qed
qed

text \<open>
  C8, as amended: constructing a \<^verbatim>\<open>CohortInput\<close> succeeds if and only if the period
  numbers of its periods are exactly \<open>1, 2, ..., N\<close> for the \<open>N\<close> periods given, that is if
  and only if the period in position \<open>i\<close> (from 0) has number \<open>i + 1\<close>; when it fails, the
  message of the error is \<^verbatim>\<open>Periods must be sequential starting at 1. Got: <xs>...\<close>
  where \<^verbatim>\<open>xs\<close> are the first five period numbers given; the expected numbers are not
  part of the message.
\<close>

theorem sequential_period_validation:
  "((\<exists>c. CohortInput_new ps g = Inr c) \<longleftrightarrow> map period ps = [1..int (length ps)]) \<and>
   (map period ps = [1..int (length ps)] \<longleftrightarrow> (\<forall>i < length ps. period (ps ! i) = int i + 1)) \<and>
   (map period ps = [1..int (length ps)] \<longrightarrow>
      CohortInput_new ps g = Inr \<lparr>periods = ps, parameters = g\<rparr>) \<and>
   (map period ps \<noteq> [1..int (length ps)] \<longrightarrow>
      CohortInput_new ps g =
        Inl (ValidationError [ValueError
          [Lit ''Periods must be sequential starting at 1. Got: '',
           IntsArg (take 5 (map period ps)), Lit ''...'']]))"
  using sequential_iff_nth [of ps]
  by (simp add: CohortInput_new_def periods_sequential_def)

theorem sequential_period_validation_witness:
  "map period [make_period 1, make_period 3] \<noteq> [1..int (length [make_period 1, make_period 3])] \<and>
   CohortInput_new [make_period 1, make_period 3] default_params =
     Inl (ValidationError [ValueError
          [Lit ''Periods must be sequential starting at 1. Got: '',
           IntsArg (take 5 (map period [make_period 1, make_period 3])), Lit ''...'']]) \<and>
   map period [make_period 1, make_period 2] = [1..int (length [make_period 1, make_period 2])] \<and>
   CohortInput_new [make_period 1, make_period 2] default_params =
     Inr \<lparr>periods = [make_period 1, make_period 2], parameters = default_params\<rparr>"
proof (intro conjI)
  show bad: "map period [make_period 1, make_period 3] \<noteq>
      [1..int (length [make_period 1, make_period 3])]"
    by (simp add: upto.simps)
  from sequential_period_validation [of "[make_period 1, make_period 3]" default_params] bad
  show "CohortInput_new [make_period 1, make_period 3] default_params =
     Inl (ValidationError [ValueError
          [Lit ''Periods must be sequential starting at 1. Got: '',
           IntsArg (take 5 (map period [make_period 1, make_period 3])), Lit ''...'']])"
    by blast
  show good: "map period [make_period 1, make_period 2] =
      [1..int (length [make_period 1, make_period 2])]"
    by (simp add: upto.simps)
  from sequential_period_validation [of "[make_period 1, make_period 2]" default_params] good
  show "CohortInput_new [make_period 1, make_period 2] default_params =
     Inr \<lparr>periods = [make_period 1, make_period 2], parameters = default_params\<rparr>"
    by blast
qed

text \<open>
  C8 as stated fails on the message: for the periods numbered 1 and 3 of
  \<^verbatim>\<open>test_non_sequential_periods_rejected\<close> the message interpolates the given numbers
  \<open>[1, 3]\<close> only; the expected numbers \<open>[1, 2]\<close> are not in it.
\<close>

theorem sequential_period_message_counterexample:
  "CohortInput_new [make_period 1, make_period 3] default_params =
     Inl (ValidationError [ValueError
          [Lit ''Periods must be sequential starting at 1. Got: '', IntsArg [1, 3], Lit ''...'']]) \<and>
   [1..int (length [make_period 1, make_period 3])] = [1, 2] \<and>
   IntsArg [1, 2] \<notin> set
          [Lit ''Periods must be sequential starting at 1. Got: '', IntsArg [1, 3], Lit ''...'']"
  by (simp add: CohortInput_new_def periods_sequential_def upto.simps)

subsection \<open>C9: what a stage leaves unchanged\<close>

lemma update_new: "k \<notin> fst ` set al \<Longrightarrow> AList.update k v al = al @ [(k, v)]"
  by (induction al) auto

lemma updates_new:
  assumes "distinct ks" and "set ks \<inter> fst ` set al = {}" and "length vs = length ks"
  shows "fold (\<lambda>(k, v). AList.update k v) (zip ks vs) al = al @ zip ks vs"
  using assms
proof (induction ks arbitrary: vs al)
  case Nil
  then show ?case by simp
next
  case (Cons k ks)
  then obtain v vs' where vs: "vs = v # vs'" and len: "length vs' = length ks"
    by (cases vs) auto
  from Cons.prems have k: "k \<notin> fst ` set al" and d: "distinct ks" and kk: "k \<notin> set ks"
    and disj: "set ks \<inter> fst ` set al = {}"
    by auto
  from kk disj have "set ks \<inter> fst ` set (al @ [(k, v)]) = {}"
    by auto
  from Cons.IH [OF d this len] show ?case
    by (simp add: vs update_new [OF k])
qed

lemma map_of_updates_other:
  "name \<notin> set ks \<Longrightarrow> length vs = length ks \<Longrightarrow>
   map_of (fold (\<lambda>(k, v). AList.update k v) (zip ks vs) al) name = map_of al name"
proof (induction ks arbitrary: vs al)
  case Nil
  then show ?case by simp
next
  case (Cons k ks)
  then obtain v vs' where vs: "vs = v # vs'" and len: "length vs' = length ks"
    by (cases vs) auto
  from Cons.prems have "name \<notin> set ks" "name \<noteq> k" by auto
  with Cons.IH [OF _ len] show ?case
    by (simp add: vs update_conv')
qed

text \<open>What a stage that returns has done, in terms of the columns it assigns.\<close>

lemma stage_frame:
  fixes h h' :: store
  assumes r: "r < length h" and r': "r' = length h"
    and h': "h' = h @ [(h ! r)\<lparr>columns := fold (\<lambda>(k, v). AList.update k v) (zip outs vals)
                                      (columns (h ! r))\<rparr>]"
    and len: "length vals = length outs" and d: "distinct outs"
  shows "r < length h \<and> r' = length h \<and> length h' = Suc (length h) \<and> take (length h) h' = h \<and>
     index_size (h' ! r') = index_size (h ! r) \<and>
     (\<forall>name. name \<notin> set outs \<longrightarrow>
        map_of (columns (h' ! r')) name = map_of (columns (h ! r)) name) \<and>
     (set outs \<inter> fst ` set (columns (h ! r)) = {} \<longrightarrow>
        (\<exists>vals. length vals = length outs \<and>
           columns (h' ! r') = columns (h ! r) @ zip outs vals))"
proof -
  have cols: "columns (h' ! r') =
      fold (\<lambda>(k, v). AList.update k v) (zip outs vals) (columns (h ! r))"
    by (simp add: h' r')
  have other: "\<forall>name. name \<notin> set outs \<longrightarrow>
        map_of (columns (h' ! r')) name = map_of (columns (h ! r)) name"
    unfolding cols using len by (simp add: map_of_updates_other)
  have app: "set outs \<inter> fst ` set (columns (h ! r)) = {} \<longrightarrow>
        (\<exists>vals. length vals = length outs \<and>
           columns (h' ! r') = columns (h ! r) @ zip outs vals)"
    unfolding cols using updates_new [OF d _ len] len by blast
  have "length h' = Suc (length h)" "take (length h) h' = h"
    "index_size (h' ! r') = index_size (h ! r)"
    by (simp_all add: h' r')
  with r r' other app show ?thesis
    by blast
qed

lemma compute_costs_frame:
  assumes "compute_costs ar r h = Inr (r', h')"
  shows "\<exists>vals. r < length h \<and> r' = length h \<and> length vals = length [''charge_off_loss'', ''total_cost''] \<and>
    h' = h @ [(h ! r)\<lparr>columns := fold (\<lambda>(k, v). AList.update k v)
        (zip [''charge_off_loss'', ''total_cost''] vals) (columns (h ! r))\<rparr>]"
proof -
  from assms obtain v1 v2 where "r < length h" "r' = length h"
    "h' = h @ [(h ! r)\<lparr>columns := AList.update ''total_cost'' v2
        (AList.update ''charge_off_loss'' v1 (columns (h ! r)))\<rparr>]"
    unfolding compute_costs_eq by (auto split: if_splits option.splits)
  then show ?thesis
    by (intro exI [of _ "[v1, v2]"]) simp
qed


lemma compute_survival_frame:
  assumes "compute_survival ar r h = Inr (r', h')"
  shows "\<exists>vals. r < length h \<and> r' = length h \<and> length vals = length [''survival_factor'', ''cumulative_survival'', ''active_accounts_bop'', ''charge_off_accounts'', ''attrition_accounts''] \<and>
    h' = h @ [(h ! r)\<lparr>columns := fold (\<lambda>(k, v). AList.update k v)
        (zip [''survival_factor'', ''cumulative_survival'', ''active_accounts_bop'', ''charge_off_accounts'', ''attrition_accounts''] vals) (columns (h ! r))\<rparr>]"
proof -
  from assms obtain v1 v2 v3 v4 v5 where "r < length h" "r' = length h"
    "h' = h @ [(h ! r)\<lparr>columns := (AList.update ''attrition_accounts'' v5
        (AList.update ''charge_off_accounts'' v4
        (AList.update ''active_accounts_bop'' v3
        (AList.update ''cumulative_survival'' v2
        (AList.update ''survival_factor'' v1
        (columns (h ! r)))))))\<rparr>]"
    unfolding compute_survival_eq by (auto split: if_splits option.splits)
  then show ?thesis
    by (intro exI [of _ "[v1, v2, v3, v4, v5]"]) simp
qed

lemma compute_revenue_frame:
  assumes "compute_revenue ar r h = Inr (r', h')"
  shows "\<exists>vals. r < length h \<and> r' = length h \<and> length vals = length [''finance_charge'', ''interchange'', ''fee_income'', ''total_revenue''] \<and>
    h' = h @ [(h ! r)\<lparr>columns := fold (\<lambda>(k, v). AList.update k v)
        (zip [''finance_charge'', ''interchange'', ''fee_income'', ''total_revenue''] vals) (columns (h ! r))\<rparr>]"
proof -
  from assms obtain v1 v2 v3 v4 where "r < length h" "r' = length h"
    "h' = h @ [(h ! r)\<lparr>columns := (AList.update ''total_revenue'' v4
        (AList.update ''fee_income'' v3
        (AList.update ''interchange'' v2
        (AList.update ''finance_charge'' v1
        (columns (h ! r))))))\<rparr>]"
    unfolding compute_revenue_eq by (auto split: if_splits option.splits)
  then show ?thesis
    by (intro exI [of _ "[v1, v2, v3, v4]"]) simp
qed

lemma compute_net_income_and_pv_frame:
  assumes "compute_net_income_and_pv ar r h = Inr (r', h')"
  shows "\<exists>vals. r < length h \<and> r' = length h \<and> length vals = length [''net_income'', ''discount_factor'', ''pv_net_income'', ''cumulative_pv''] \<and>
    h' = h @ [(h ! r)\<lparr>columns := fold (\<lambda>(k, v). AList.update k v)
        (zip [''net_income'', ''discount_factor'', ''pv_net_income'', ''cumulative_pv''] vals) (columns (h ! r))\<rparr>]"
proof -
  from assms obtain v1 v2 v3 v4 where "r < length h" "r' = length h"
    "h' = h @ [(h ! r)\<lparr>columns := (AList.update ''cumulative_pv'' v4
        (AList.update ''pv_net_income'' v3
        (AList.update ''discount_factor'' v2
        (AList.update ''net_income'' v1
        (columns (h ! r))))))\<rparr>]"
    unfolding compute_net_income_and_pv_eq by (auto split: if_splits option.splits)
  then show ?thesis
    by (intro exI [of _ "[v1, v2, v3, v4]"]) simp
qed

lemma ball_set_Cons: "(\<forall>x \<in> set (a # xs). P x) \<longleftrightarrow> P a \<and> (\<forall>x \<in> set xs. P x)"
  by simp

lemma ball_set_Nil: "(\<forall>x \<in> set []. P x) \<longleftrightarrow> True"
  by simp

text \<open>
  C9, as amended: when one of the four stages returns, the table it returns is a new object
  and every table that existed before, the input included, is unchanged; the new table has
  the rows of the input, and every column other than the ones the stage assigns has the
  input's values. When none of the columns the stage assigns exists in the input, which is
  so for every stage inside \<^const>\<open>run_valuation\<close> (\<open>run_valuation_run\<close>), the new table's
  columns are the input's columns followed by the assigned ones.
\<close>

theorem stage_framing:
  "\<forall>(stage, outs) \<in> set
      [(compute_survival ar, [''survival_factor'', ''cumulative_survival'', ''active_accounts_bop'', ''charge_off_accounts'', ''attrition_accounts'']),
       (compute_revenue ar, [''finance_charge'', ''interchange'', ''fee_income'', ''total_revenue'']),
       (compute_costs ar, [''charge_off_loss'', ''total_cost'']),
       (compute_net_income_and_pv ar, [''net_income'', ''discount_factor'', ''pv_net_income'', ''cumulative_pv''])].
     \<forall>r h r' h'. stage r h = Inr (r', h') \<longrightarrow>
       r < length h \<and> r' = length h \<and> length h' = Suc (length h) \<and> take (length h) h' = h \<and>
       index_size (h' ! r') = index_size (h ! r) \<and>
       (\<forall>name. name \<notin> set outs \<longrightarrow>
          map_of (columns (h' ! r')) name = map_of (columns (h ! r)) name) \<and>
       (set outs \<inter> fst ` set (columns (h ! r)) = {} \<longrightarrow>
          (\<exists>vals. length vals = length outs \<and>
             columns (h' ! r') = columns (h ! r) @ zip outs vals))"
proof -
  have survival: "r < length h \<and> r' = length h \<and> length h' = Suc (length h) \<and>
       take (length h) h' = h \<and> index_size (h' ! r') = index_size (h ! r) \<and>
       (\<forall>name. name \<notin> set outs \<longrightarrow>
          map_of (columns (h' ! r')) name = map_of (columns (h ! r)) name) \<and>
       (set outs \<inter> fst ` set (columns (h ! r)) = {} \<longrightarrow>
          (\<exists>vals. length vals = length outs \<and>
             columns (h' ! r') = columns (h ! r) @ zip outs vals))"
    if run: "compute_survival ar r h = Inr (r', h')"
      and outs: "outs = [''survival_factor'', ''cumulative_survival'', ''active_accounts_bop'',
                   ''charge_off_accounts'', ''attrition_accounts'']"
    for r h r' h' outs
  proof -
    from compute_survival_frame [OF run] obtain vals where
      a: "r < length h" and b: "r' = length h" and l: "length vals = length outs" and
      c: "h' = h @ [(h ! r)\<lparr>columns := fold (\<lambda>(k, v). AList.update k v) (zip outs vals)
                                      (columns (h ! r))\<rparr>]"
      unfolding outs by blast
    have d: "distinct outs" unfolding outs by simp
    show ?thesis by (rule stage_frame [OF a b c l d])
  qed
  have revenue: "r < length h \<and> r' = length h \<and> length h' = Suc (length h) \<and>
       take (length h) h' = h \<and> index_size (h' ! r') = index_size (h ! r) \<and>
       (\<forall>name. name \<notin> set outs \<longrightarrow>
          map_of (columns (h' ! r')) name = map_of (columns (h ! r)) name) \<and>
       (set outs \<inter> fst ` set (columns (h ! r)) = {} \<longrightarrow>
          (\<exists>vals. length vals = length outs \<and>
             columns (h' ! r') = columns (h ! r) @ zip outs vals))"
    if run: "compute_revenue ar r h = Inr (r', h')"
      and outs: "outs = [''finance_charge'', ''interchange'', ''fee_income'', ''total_revenue'']"
    for r h r' h' outs
  proof -
    from compute_revenue_frame [OF run] obtain vals where
      a: "r < length h" and b: "r' = length h" and l: "length vals = length outs" and
      c: "h' = h @ [(h ! r)\<lparr>columns := fold (\<lambda>(k, v). AList.update k v) (zip outs vals)
                                      (columns (h ! r))\<rparr>]"
      unfolding outs by blast
    have d: "distinct outs" unfolding outs by simp
    show ?thesis by (rule stage_frame [OF a b c l d])
  qed
  have costs: "r < length h \<and> r' = length h \<and> length h' = Suc (length h) \<and>
       take (length h) h' = h \<and> index_size (h' ! r') = index_size (h ! r) \<and>
       (\<forall>name. name \<notin> set outs \<longrightarrow>
          map_of (columns (h' ! r')) name = map_of (columns (h ! r)) name) \<and>
       (set outs \<inter> fst ` set (columns (h ! r)) = {} \<longrightarrow>
          (\<exists>vals. length vals = length outs \<and>
             columns (h' ! r') = columns (h ! r) @ zip outs vals))"
    if run: "compute_costs ar r h = Inr (r', h')"
      and outs: "outs = [''charge_off_loss'', ''total_cost'']"
    for r h r' h' outs
  proof -
    from compute_costs_frame [OF run] obtain vals where
      a: "r < length h" and b: "r' = length h" and l: "length vals = length outs" and
      c: "h' = h @ [(h ! r)\<lparr>columns := fold (\<lambda>(k, v). AList.update k v) (zip outs vals)
                                      (columns (h ! r))\<rparr>]"
      unfolding outs by blast
    have d: "distinct outs" unfolding outs by simp
    show ?thesis by (rule stage_frame [OF a b c l d])
  qed
  have pv: "r < length h \<and> r' = length h \<and> length h' = Suc (length h) \<and>
       take (length h) h' = h \<and> index_size (h' ! r') = index_size (h ! r) \<and>
       (\<forall>name. name \<notin> set outs \<longrightarrow>
          map_of (columns (h' ! r')) name = map_of (columns (h ! r)) name) \<and>
       (set outs \<inter> fst ` set (columns (h ! r)) = {} \<longrightarrow>
          (\<exists>vals. length vals = length outs \<and>
             columns (h' ! r') = columns (h ! r) @ zip outs vals))"
    if run: "compute_net_income_and_pv ar r h = Inr (r', h')"
      and outs: "outs = [''net_income'', ''discount_factor'', ''pv_net_income'', ''cumulative_pv'']"
    for r h r' h' outs
  proof -
    from compute_net_income_and_pv_frame [OF run] obtain vals where
      a: "r < length h" and b: "r' = length h" and l: "length vals = length outs" and
      c: "h' = h @ [(h ! r)\<lparr>columns := fold (\<lambda>(k, v). AList.update k v) (zip outs vals)
                                      (columns (h ! r))\<rparr>]"
      unfolding outs by blast
    have d: "distinct outs" unfolding outs by simp
    show ?thesis by (rule stage_frame [OF a b c l d])
  qed
  show ?thesis
    apply (simp only: ball_set_Cons ball_set_Nil case_prod_conv simp_thms)
    apply (intro conjI)
       apply (intro allI impI, rule survival [OF _ refl], assumption)
      apply (intro allI impI, rule revenue [OF _ refl], assumption)
     apply (intro allI impI, rule costs [OF _ refl], assumption)
    apply (intro allI impI, rule pv [OF _ refl], assumption)
    done
qed

theorem stage_framing_witness:
  "compute_costs exact 0 [\<lparr>index_size = 1, columns = [(''active_accounts_bop'', [1000]),
        (''prob_charge_off'', [2 / 100]), (''revolving_balance'', [5000])]\<rparr>] =
     Inr (1, [\<lparr>index_size = 1, columns = [(''active_accounts_bop'', [1000]),
        (''prob_charge_off'', [2 / 100]), (''revolving_balance'', [5000])]\<rparr>,
       \<lparr>index_size = 1, columns = [(''active_accounts_bop'', [1000]),
        (''prob_charge_off'', [2 / 100]), (''revolving_balance'', [5000]),
        (''charge_off_loss'', [100000]), (''total_cost'', [100000])]\<rparr>]) \<and>
   set [''charge_off_loss'', ''total_cost''] \<inter> fst ` set (columns \<lparr>index_size = 1, columns = [(''active_accounts_bop'', [1000]),
        (''prob_charge_off'', [2 / 100]), (''revolving_balance'', [5000])]\<rparr>) = {} \<and>
   take 1 [\<lparr>index_size = 1, columns = [(''active_accounts_bop'', [1000]),
        (''prob_charge_off'', [2 / 100]), (''revolving_balance'', [5000])]\<rparr>,
       \<lparr>index_size = 1, columns = [(''active_accounts_bop'', [1000]),
        (''prob_charge_off'', [2 / 100]), (''revolving_balance'', [5000]),
        (''charge_off_loss'', [100000]), (''total_cost'', [100000])]\<rparr>] = [\<lparr>index_size = 1, columns = [(''active_accounts_bop'', [1000]),
        (''prob_charge_off'', [2 / 100]), (''revolving_balance'', [5000])]\<rparr>] \<and>
   map_of (columns \<lparr>index_size = 1, columns = [(''active_accounts_bop'', [1000]),
        (''prob_charge_off'', [2 / 100]), (''revolving_balance'', [5000]),
        (''charge_off_loss'', [100000]), (''total_cost'', [100000])]\<rparr>) ''revolving_balance'' =
     map_of (columns \<lparr>index_size = 1, columns = [(''active_accounts_bop'', [1000]),
        (''prob_charge_off'', [2 / 100]), (''revolving_balance'', [5000])]\<rparr>) ''revolving_balance'' \<and>
   (\<exists>vals. length vals = 2 \<and>
      columns \<lparr>index_size = 1, columns = [(''active_accounts_bop'', [1000]),
        (''prob_charge_off'', [2 / 100]), (''revolving_balance'', [5000]),
        (''charge_off_loss'', [100000]), (''total_cost'', [100000])]\<rparr> =
      columns \<lparr>index_size = 1, columns = [(''active_accounts_bop'', [1000]),
        (''prob_charge_off'', [2 / 100]), (''revolving_balance'', [5000])]\<rparr> @ zip [''charge_off_loss'', ''total_cost''] vals)"
proof -
  let ?T = "\<lparr>index_size = 1, columns = [(''active_accounts_bop'', [1000]),
        (''prob_charge_off'', [2 / 100]), (''revolving_balance'', [5000])]\<rparr>"
  let ?T' = "\<lparr>index_size = 1, columns = [(''active_accounts_bop'', [1000]),
        (''prob_charge_off'', [2 / 100]), (''revolving_balance'', [5000]),
        (''charge_off_loss'', [100000]), (''total_cost'', [100000])]\<rparr>"
  have run: "compute_costs exact 0 [?T] = Inr (1, [?T, ?T'])"
    by (simp add: compute_costs_eq smul_def)
  have new: "set [''charge_off_loss'', ''total_cost''] \<inter> fst ` set (columns ([?T] ! 0)) = {}"
    by simp
  have other: "''revolving_balance'' \<notin> set [''charge_off_loss'', ''total_cost'']"
    by simp
  have mem: "(compute_costs exact, [''charge_off_loss'', ''total_cost'']) \<in> set
      [(compute_survival exact, [''survival_factor'', ''cumulative_survival'', ''active_accounts_bop'', ''charge_off_accounts'', ''attrition_accounts'']),
       (compute_revenue exact, [''finance_charge'', ''interchange'', ''fee_income'', ''total_revenue'']),
       (compute_costs exact, [''charge_off_loss'', ''total_cost'']),
       (compute_net_income_and_pv exact, [''net_income'', ''discount_factor'', ''pv_net_income'', ''cumulative_pv''])]"
    by simp
  note frame = bspec [OF stage_framing [where ar = exact] mem, unfolded case_prod_conv]
  note fr = frame [rule_format, OF run]
  note f1 = fr [THEN conjunct2, THEN conjunct2, THEN conjunct2, THEN conjunct1]
  note f2 = fr [THEN conjunct2, THEN conjunct2, THEN conjunct2, THEN conjunct2, THEN conjunct2,
      THEN conjunct1]
  note f3 = fr [THEN conjunct2, THEN conjunct2, THEN conjunct2, THEN conjunct2, THEN conjunct2,
      THEN conjunct2]
  from f1 have g1: "take 1 [?T, ?T'] = [?T]"
    by simp
  from f2 [rule_format, OF other] have g2:
    "map_of (columns ?T') ''revolving_balance'' = map_of (columns ?T) ''revolving_balance''"
    by simp
  from f3 [rule_format, OF new] have g3: "\<exists>vals. length vals = 2 \<and>
      columns ?T' = columns ?T @ zip [''charge_off_loss'', ''total_cost''] vals"
    by (simp add: numeral_2_eq_2)
  from new have g0: "set [''charge_off_loss'', ''total_cost''] \<inter> fst ` set (columns ?T) = {}"
    by simp
  from run g0 g1 g2 g3 show ?thesis
    by (intro conjI)
qed

text \<open>
  C9 as stated fails for a column that exists in the input and that the stage assigns:
  \<^const>\<open>compute_costs\<close> on a table that already has a \<^verbatim>\<open>total_cost\<close> column replaces
  its values.
\<close>

theorem stage_framing_counterexample:
  "compute_costs exact 0 [\<lparr>index_size = 1, columns = [(''active_accounts_bop'', [1000]),
        (''prob_charge_off'', [2 / 100]), (''revolving_balance'', [5000]),
        (''total_cost'', [0])]\<rparr>] =
     Inr (1, [\<lparr>index_size = 1, columns = [(''active_accounts_bop'', [1000]),
        (''prob_charge_off'', [2 / 100]), (''revolving_balance'', [5000]),
        (''total_cost'', [0])]\<rparr>,
       \<lparr>index_size = 1, columns = [(''active_accounts_bop'', [1000]),
        (''prob_charge_off'', [2 / 100]), (''revolving_balance'', [5000]),
        (''total_cost'', [100000]), (''charge_off_loss'', [100000])]\<rparr>]) \<and>
   map_of (columns \<lparr>index_size = 1, columns = [(''active_accounts_bop'', [1000]),
        (''prob_charge_off'', [2 / 100]), (''revolving_balance'', [5000]),
        (''total_cost'', [0])]\<rparr>) ''total_cost'' = Some [0] \<and>
   map_of (columns \<lparr>index_size = 1, columns = [(''active_accounts_bop'', [1000]),
        (''prob_charge_off'', [2 / 100]), (''revolving_balance'', [5000]),
        (''total_cost'', [100000]), (''charge_off_loss'', [100000])]\<rparr>) ''total_cost'' = Some [100000]"
  by (simp add: compute_costs_eq smul_def)

subsection \<open>C10: non-negative columns\<close>








text \<open>The net income is not in the list: on a validated cohort it can be negative.\<close>

lemma net_income_may_be_negative:
  "valid_cohort exact full_charge_off_cohort \<and>
   (\<exists>s h'. run_valuation exact full_charge_off_cohort [] = Inr ((4, s), h') \<and>
      map_of (columns (h' ! 4)) ''net_income'' = Some [- 4880000, 0])"
proof -
  have ne: "periods full_charge_off_cohort \<noteq> []"
    by (simp add: full_charge_off_cohort_def)
  have n0: "num_accounts (parameters full_charge_off_cohort) \<noteq> 0"
    by (simp add: full_charge_off_cohort_def default_params_def)
  have "\<exists>s h'. run_valuation exact full_charge_off_cohort [] = Inr ((4, s), h') \<and>
      map_of (columns (h' ! 4)) ''net_income'' = Some [- 4880000, 0]"
    unfolding run_valuation_run [OF ne n0, where ar = exact and h = "[]"]
    by (simp add: full_charge_off_cohort_def default_params_def make_period_def
        sadd_def ssub_def smul_def scalar_sub_def cumprod_def shift1_def)
  with valid_full_charge_off_cohort show ?thesis
    by (rule conjI)
qed

end
